theory Spec2Isabelle
  imports Complex_Main "HOL-Library.Sublist" "HOL-Library.AList"
begin

section \<open>Data model\<close>

text \<open>
  The scripts are geoprocessing tools: they read and write datasets (tables and feature
  classes) held by the geoprocessing engine \<^verbatim>\<open>arcpy\<close>. A dataset has a list of field
  descriptors and a list of rows; a row carries attribute values and a geometry. The
  workspace maps dataset paths to datasets.

  Coordinates, measures and attribute numbers are real numbers. The stepping loop works
  on Python floats: its values are the real numbers that are IEEE binary64 numbers, and
  its additions are rounded (section on Python floats below). The coordinate arithmetic
  of the cross-sections is kept exact.
\<close>

datatype error = IndexError | TypeError | AttributeError | IOError | RuntimeError | ExecuteError

datatype val = Null | Num real | Str string

text \<open>A vertex is \<open>(X, Y, M)\<close>; \<open>M\<close> is \<open>None\<close> on a point that carries no measure.\<close>

type_synonym vertex = "real \<times> real \<times> real option"

datatype geometry = NoGeometry | Point vertex | Polyline "vertex list list"

record feature =
  attrs :: "(string \<times> val) list"
  shape :: geometry

record field =
  fname :: string
  ftype :: string
  flength :: nat

record dataset =
  dfields :: "field list"
  rows :: "feature list"

type_synonym workspace = "(string \<times> dataset) list"

definition attr :: "feature \<Rightarrow> string \<Rightarrow> val" where
  "attr row nm = (case map_of (attrs row) nm of None \<Rightarrow> Null | Some v \<Rightarrow> v)"

definition M :: "vertex \<Rightarrow> real option" where
  "M v = snd (snd v)"

text \<open>\<^verbatim>\<open>geometry.firstPoint\<close> and \<^verbatim>\<open>geometry.lastPoint\<close>; \<open>None\<close> where Python finds no
  point object to read (the geometry is missing or empty).\<close>

fun firstPoint :: "geometry \<Rightarrow> vertex option" where
  "firstPoint NoGeometry = None"
| "firstPoint (Point v) = Some v"
| "firstPoint (Polyline ps) = (case concat ps of [] \<Rightarrow> None | v # _ \<Rightarrow> Some v)"

fun lastPoint :: "geometry \<Rightarrow> vertex option" where
  "lastPoint NoGeometry = None"
| "lastPoint (Point v) = Some v"
| "lastPoint (Polyline ps) = (case rev (concat ps) of [] \<Rightarrow> None | v # _ \<Rightarrow> Some v)"

text \<open>The cursor token \<^verbatim>\<open>SHAPE@LENGTH\<close>: the planar length of the feature, the sum over
  its parts of the distances between consecutive vertices.\<close>

definition dist2d :: "vertex \<Rightarrow> vertex \<Rightarrow> real" where
  "dist2d a b = sqrt ((fst b - fst a)\<^sup>2 + (fst (snd b) - fst (snd a))\<^sup>2)"

fun part_length :: "vertex list \<Rightarrow> real" where
  "part_length (a # b # vs) = dist2d a b + part_length (b # vs)"
| "part_length _ = 0"

fun SHAPE_LENGTH :: "geometry \<Rightarrow> real" where
  "SHAPE_LENGTH (Polyline ps) = sum_list (map part_length ps)"
| "SHAPE_LENGTH _ = 0"

text \<open>The cursor token \<^verbatim>\<open>SHAPE@XY\<close> of a point feature: its coordinates. (For other
  geometry types the engine returns a centroid, which is not modelled; the station
  features the cross-section builder reads are points.)\<close>

fun SHAPE_XY :: "geometry \<Rightarrow> (real \<times> real) option" where
  "SHAPE_XY (Point (x, y, m)) = Some (x, y)"
| "SHAPE_XY _ = None"

section \<open>Programs over the workspace\<close>

text \<open>
  A call either raises, leaving the workspace as it is at that moment, or returns a
  value; both come with the workspace reached.
\<close>

type_synonym 'a prog = "workspace \<Rightarrow> (error + 'a) \<times> workspace"

definition ret :: "'a \<Rightarrow> 'a prog" where
  "ret x = (\<lambda>w. (Inr x, w))"

definition raise :: "error \<Rightarrow> 'a prog" where
  "raise e = (\<lambda>w. (Inl e, w))"

definition and_then :: "'a prog \<Rightarrow> ('a \<Rightarrow> 'b prog) \<Rightarrow> 'b prog" where
  "and_then m f = (\<lambda>w. case m w of (Inl e, w') \<Rightarrow> (Inl e, w') | (Inr x, w') \<Rightarrow> f x w')"

subsection \<open>The engine's operations\<close>

text \<open>
  The operations of \<^verbatim>\<open>arcpy\<close> that the scripts call, after the engine's documentation:
  creating a dataset replaces one of the same path (the tools run with
  \<^verbatim>\<open>overwriteOutput\<close>), a dataset or field that does not exist makes the call raise,
  adding a field that exists leaves the dataset as it is.
\<close>

definition field_names :: "dataset \<Rightarrow> string list" where
  "field_names d = map fname (dfields d)"

definition Describe :: "string \<Rightarrow> dataset prog" where
  "Describe ds = (\<lambda>w. case map_of w ds of None \<Rightarrow> (Inl IOError, w) | Some d \<Rightarrow> (Inr d, w))"

definition Exists :: "workspace \<Rightarrow> string \<Rightarrow> bool" where
  "Exists w ds = (map_of w ds \<noteq> None)"

definition oid_field :: field where
  "oid_field = \<lparr>fname = ''OBJECTID'', ftype = ''OID'', flength = 4\<rparr>"

definition shape_field :: field where
  "shape_field = \<lparr>fname = ''Shape'', ftype = ''Geometry'', flength = 0\<rparr>"

definition CreateTable :: "string \<Rightarrow> unit prog" where
  "CreateTable out_table =
     (\<lambda>w. (Inr (), AList.update out_table \<lparr>dfields = [oid_field], rows = []\<rparr> w))"

definition CreateFeatureclass :: "string \<Rightarrow> string \<Rightarrow> unit prog" where
  "CreateFeatureclass out_fc spatial_reference =
     (\<lambda>w. if Exists w spatial_reference
          then (Inr (), AList.update out_fc \<lparr>dfields = [oid_field, shape_field], rows = []\<rparr> w)
          else (Inl ExecuteError, w))"

definition AddField :: "string \<Rightarrow> string \<Rightarrow> string \<Rightarrow> nat \<Rightarrow> unit prog" where
  "AddField ds nm ty len =
     (\<lambda>w. case map_of w ds of
            None \<Rightarrow> (Inl ExecuteError, w)
          | Some d \<Rightarrow>
              if nm \<in> set (field_names d) then (Inr (), w)
              else (Inr (), AList.update ds
                      (d\<lparr>dfields := dfields d @ [\<lparr>fname = nm, ftype = ty, flength = len\<rparr>]\<rparr>) w))"

definition CopyFeatures :: "string \<Rightarrow> string \<Rightarrow> unit prog" where
  "CopyFeatures src dst =
     (\<lambda>w. case map_of w src of
            None \<Rightarrow> (Inl ExecuteError, w)
          | Some d \<Rightarrow> (Inr (), AList.update dst d w))"

definition Delete :: "string \<Rightarrow> unit prog" where
  "Delete ds =
     (\<lambda>w. if Exists w ds then (Inr (), AList.delete ds w) else (Inl ExecuteError, w))"

text \<open>Opening a cursor on a dataset with a list of field names: the rows in stored order.
  Tokens (\<^verbatim>\<open>SHAPE@\<close>, \<^verbatim>\<open>SHAPE@XY\<close>, \<^verbatim>\<open>SHAPE@LENGTH\<close>) are not field names and are left
  out of the list passed here.\<close>

definition Cursor :: "string \<Rightarrow> string list \<Rightarrow> feature list prog" where
  "Cursor ds names =
     (\<lambda>w. case map_of w ds of
            None \<Rightarrow> (Inl RuntimeError, w)
          | Some d \<Rightarrow>
              if set names \<subseteq> set (field_names d) then (Inr (rows d), w)
              else (Inl RuntimeError, w))"

definition insertRow :: "string \<Rightarrow> feature \<Rightarrow> workspace \<Rightarrow> workspace" where
  "insertRow ds row w =
     (case map_of w ds of
        None \<Rightarrow> w
      | Some d \<Rightarrow> AList.update ds (d\<lparr>rows := rows d @ [row]\<rparr>) w)"

text \<open>\<^verbatim>\<open>CreateUniqueName(base, workspace)\<close>: the base name, or the base name followed by the
  first number that makes it a path not in use.\<close>

fun show_nat :: "nat \<Rightarrow> string" where
  "show_nat n =
     (if n < 10 then [char_of (48 + n)]
      else show_nat (n div 10) @ [char_of (48 + n mod 10)])"

declare show_nat.simps [simp del]

definition CreateUniqueName :: "string \<Rightarrow> string \<Rightarrow> workspace \<Rightarrow> string" where
  "CreateUniqueName base ws w =
     (let stem = ws @ ''/'' @ base;
          candidates = stem # map (\<lambda>i. stem @ show_nat i) [0..<length w]
      in case find (\<lambda>c. \<not> Exists w c) candidates of
           Some c \<Rightarrow> c
         | None \<Rightarrow> stem @ show_nat (length w))"

text \<open>
  The two linear-referencing primitives build geometry inside the engine; what they
  build is a parameter of the model. \<open>lr_routes d id_field\<close> is the route feature class
  made from the lines \<open>d\<close> with measure source \<^verbatim>\<open>TWO_FIELDS\<close> (fields \<^verbatim>\<open>FromMeasure\<close>,
  \<^verbatim>\<open>ToMeasure\<close>); \<open>lr_events routes id_field table\<close> is the point event layer with its
  angle field.
\<close>

record engine =
  lr_routes :: "dataset \<Rightarrow> string \<Rightarrow> dataset"
  lr_events :: "dataset \<Rightarrow> string \<Rightarrow> dataset \<Rightarrow> dataset"

definition CreateRoutes :: "engine \<Rightarrow> string \<Rightarrow> string \<Rightarrow> string \<Rightarrow> unit prog" where
  "CreateRoutes eng in_lines route_id_field out_routes =
     (\<lambda>w. case map_of w in_lines of
            None \<Rightarrow> (Inl ExecuteError, w)
          | Some d \<Rightarrow>
              if set [route_id_field, ''FromMeasure'', ''ToMeasure''] \<subseteq> set (field_names d)
              then (Inr (), AList.update out_routes (lr_routes eng d route_id_field) w)
              else (Inl ExecuteError, w))"

definition MakeRouteEventLayer :: "engine \<Rightarrow> string \<Rightarrow> string \<Rightarrow> string \<Rightarrow> string \<Rightarrow> unit prog" where
  "MakeRouteEventLayer eng in_routes route_id_field in_table out_layer =
     (\<lambda>w. case (map_of w in_routes, map_of w in_table) of
            (Some r, Some t) \<Rightarrow>
              if route_id_field \<in> set (field_names r)
                 \<and> set [route_id_field, ''Measure''] \<subseteq> set (field_names t)
              then (Inr (), AList.update out_layer (lr_events eng r route_id_field t) w)
              else (Inl ExecuteError, w)
          | _ \<Rightarrow> (Inl ExecuteError, w))"

text \<open>An engine used to run the tools on concrete inputs. Each line becomes one route
  whose vertices carry measures running from the from-measure to the to-measure in
  proportion to the length travelled. An event is located on the straight segment
  between the end points of its route, and its angle field is 90 degrees (the normal of
  a route that runs along the X axis).\<close>

fun travelled :: "real \<Rightarrow> vertex list \<Rightarrow> (vertex \<times> real) list" where
  "travelled acc [] = []"
| "travelled acc [a] = [(a, acc)]"
| "travelled acc (a # b # vs) = (a, acc) # travelled (acc + dist2d a b) (b # vs)"

definition set_measures :: "real \<Rightarrow> real \<Rightarrow> geometry \<Rightarrow> geometry" where
  "set_measures f t g =
     (case g of
        Polyline ps \<Rightarrow>
          Polyline (map (\<lambda>p. map (\<lambda>((x, y, m), s).
                       (x, y, Some (if SHAPE_LENGTH g = 0 then f
                                    else f + (t - f) * s / SHAPE_LENGTH g)))
                     (travelled 0 p)) ps)
      | _ \<Rightarrow> g)"

definition num_of :: "val \<Rightarrow> real" where
  "num_of v = (case v of Num x \<Rightarrow> x | _ \<Rightarrow> 0)"

definition locate :: "geometry \<Rightarrow> real \<Rightarrow> geometry" where
  "locate g m =
     (case (firstPoint g, lastPoint g) of
        (Some (x0, y0, Some m0), Some (x1, y1, Some m1)) \<Rightarrow>
          if m1 = m0 then Point (x0, y0, Some m)
          else Point (x0 + (x1 - x0) * (m - m0) / (m1 - m0),
                      y0 + (y1 - y0) * (m - m0) / (m1 - m0), Some m)
      | _ \<Rightarrow> NoGeometry)"

definition sample_engine :: engine where
  "sample_engine =
     \<lparr>lr_routes = (\<lambda>d rid.
        \<lparr>dfields = [oid_field, shape_field] @ filter (\<lambda>f. fname f = rid) (dfields d),
         rows = map (\<lambda>r. \<lparr>attrs = [(rid, attr r rid)],
                          shape = set_measures (num_of (attr r ''FromMeasure''))
                                    (num_of (attr r ''ToMeasure'')) (shape r)\<rparr>) (rows d)\<rparr>),
      lr_events = (\<lambda>r rid t.
        \<lparr>dfields = dfields t @ [shape_field,
                                \<lparr>fname = ''LOC_ANGLE'', ftype = ''DOUBLE'', flength = 0\<rparr>],
         rows = map (\<lambda>e. \<lparr>attrs = attrs e @ [(''LOC_ANGLE'', Num 90)],
                          shape = (case find (\<lambda>x. attr x rid = attr e rid) (rows r) of
                                     None \<Rightarrow> NoGeometry
                                   | Some x \<Rightarrow> locate (shape x)
                                                (num_of (attr e ''Measure'')))\<rparr>) (rows t)\<rparr>)\<rparr>"

section \<open>The scripts\<close>

subsection \<open>\<^verbatim>\<open>get_field\<close>\<close>

text \<open>Python's \<^verbatim>\<open>a in b\<close> on strings: \<open>a\<close> occurs in \<open>b\<close> as a contiguous substring.\<close>

fun str_in :: "string \<Rightarrow> string \<Rightarrow> bool" where
  "str_in xs [] = (xs = [])"
| "str_in xs (y # ys) = (prefix xs (y # ys) \<or> str_in xs ys)"

text \<open>
  \<^verbatim>\<open>return [f for f in arcpy.Describe(dataset).fields if f.name in field_name][0]\<close>:
  indexing the empty list raises \<^verbatim>\<open>IndexError\<close>.
\<close>

definition get_field :: "string \<Rightarrow> string \<Rightarrow> field prog" where
  "get_field dataset field_name =
     and_then (Describe dataset) (\<lambda>d.
       case filter (\<lambda>f. str_in (fname f) field_name) (dfields d) of
         [] \<Rightarrow> raise IndexError
       | f # _ \<Rightarrow> ret f)"

subsection \<open>Python floats\<close>

text \<open>
  A Python \<^verbatim>\<open>float\<close> is an IEEE binary64 number, and the sum or difference of two floats
  is the exact result rounded to the nearest binary64 number, ties to the even
  significand. A finite float is kept as the real number it denotes. \<open>rne\<close> rounds a
  real to the nearest integer, ties to even; \<open>expo x\<close> is the exponent of the last place
  of the significand of \<open>x\<close>: 52 below the exponent of \<open>x\<close>, and never below
  \<open>- 1074\<close>, where the subnormal numbers lie. A result beyond the largest finite float
  (Python's \<^verbatim>\<open>inf\<close>) is kept as the rounded real: in the loop below it is only compared
  with the finite \<^verbatim>\<open>stop\<close>, with the same outcome.
\<close>

definition rne :: "real \<Rightarrow> int" where
  "rne x =
     (let f = \<lfloor>x\<rfloor> in
      if x - of_int f < 1 / 2 then f
      else if 1 / 2 < x - of_int f then f + 1
      else if even f then f else f + 1)"

definition expo :: "real \<Rightarrow> int" where
  "expo x = max (\<lfloor>log 2 \<bar>x\<bar>\<rfloor> - 52) (- 1074)"

definition round_mag :: "real \<Rightarrow> real" where
  "round_mag a = of_int (rne (a / 2 powr of_int (expo a))) * 2 powr of_int (expo a)"

definition double_round :: "real \<Rightarrow> real" where
  "double_round x = (if x = 0 then 0 else sgn x * round_mag \<bar>x\<bar>)"

subsection \<open>\<^verbatim>\<open>frange\<close>\<close>

text \<open>The end of the loop body: \<^verbatim>\<open>if step > 0: r += step\<close>, \<^verbatim>\<open>else: r -= step\<close>, in float
  arithmetic.\<close>

definition advance :: "real \<Rightarrow> real \<Rightarrow> real" where
  "advance r step = (if step > 0 then double_round (r + step) else double_round (r - step))"

text \<open>
  The generator, as the list of the values it yields; the first argument is the loop
  variable \<^verbatim>\<open>r\<close>, which starts at \<^verbatim>\<open>start\<close>. A loop that never leaves \<^verbatim>\<open>while\<close> is
  \<open>None\<close>.
\<close>

partial_function (option) frange :: "real \<Rightarrow> real \<Rightarrow> real \<Rightarrow> real list option" where
  "frange r stop step =
     (if r < stop
      then Option.bind (frange (advance r step) stop step) (\<lambda>ys. Some (r # ys))
      else Some [])"

text \<open>The generator asked for at most \<open>n\<close> values: what it has yielded by then, whether or
  not the loop ever ends.\<close>

fun yields :: "nat \<Rightarrow> real \<Rightarrow> real \<Rightarrow> real \<Rightarrow> real list" where
  "yields 0 r stop step = []"
| "yields (Suc n) r stop step =
     (if r < stop then r # yields n (advance r step) stop step else [])"

subsection \<open>\<^verbatim>\<open>create_point_event_table\<close>\<close>

text \<open>
  A program that may also run forever: \<open>None\<close> is the run that never returns. Only the
  stepping loop can do that.
\<close>

type_synonym 'a dprog = "workspace \<Rightarrow> ((error + 'a) \<times> workspace) option"

definition lift :: "'a prog \<Rightarrow> 'a dprog" where
  "lift m = (\<lambda>w. Some (m w))"

definition and_then_d :: "'a dprog \<Rightarrow> ('a \<Rightarrow> 'b dprog) \<Rightarrow> 'b dprog" where
  "and_then_d m f =
     (\<lambda>w. case m w of
            None \<Rightarrow> None
          | Some (Inl e, w') \<Rightarrow> Some (Inl e, w')
          | Some (Inr x, w') \<Rightarrow> f x w')"

text \<open>\<^verbatim>\<open>float(line.firstPoint.M)\<close>: reading \<^verbatim>\<open>.M\<close> of no point is an \<^verbatim>\<open>AttributeError\<close>,
  \<^verbatim>\<open>float(None)\<close> a \<^verbatim>\<open>TypeError\<close>; the result is the measure as a Python float.\<close>

definition float_M :: "vertex option \<Rightarrow> error + real" where
  "float_M p =
     (case p of
        None \<Rightarrow> Inl AttributeError
      | Some v \<Rightarrow> (case M v of None \<Rightarrow> Inl TypeError | Some m \<Rightarrow> Inr (double_round m)))"

text \<open>\<^verbatim>\<open>icursor.insertRow((row[0], measure))\<close> with the fields
  \<^verbatim>\<open>[route_id_field_name, 'Measure']\<close>.\<close>

definition event_row :: "string \<Rightarrow> val \<Rightarrow> real \<Rightarrow> feature" where
  "event_row route_id_field_name row0 measure_value =
     \<lparr>attrs = [(route_id_field_name, row0), (''Measure'', Num measure_value)], shape = NoGeometry\<rparr>"

text \<open>The two nested \<^verbatim>\<open>for\<close> loops over the rows of the search cursor.\<close>

fun populate :: "string \<Rightarrow> string \<Rightarrow> real \<Rightarrow> feature list \<Rightarrow> unit dprog" where
  "populate out_table route_id_field_name measure_interval [] w = Some (Inr (), w)"
| "populate out_table route_id_field_name measure_interval (row # cursor) w =
     (case float_M (firstPoint (shape row)) of
        Inl e \<Rightarrow> Some (Inl e, w)
      | Inr first_measure \<Rightarrow>
     (case float_M (lastPoint (shape row)) of
        Inl e \<Rightarrow> Some (Inl e, w)
      | Inr last_measure \<Rightarrow>
     (case frange first_measure last_measure measure_interval of
        None \<Rightarrow> None
      | Some yielded \<Rightarrow>
          populate out_table route_id_field_name measure_interval cursor
            (foldl (\<lambda>w' measure_value.
                      insertRow out_table
                        (event_row route_id_field_name (attr row route_id_field_name) measure_value) w')
               w yielded))))"

definition create_point_event_table ::
  "string \<Rightarrow> string \<Rightarrow> real \<Rightarrow> string \<Rightarrow> string dprog" where
  "create_point_event_table in_routes route_id_field_name measure_interval out_table =
     and_then_d (lift (get_field in_routes route_id_field_name)) (\<lambda>route_id_field.
     and_then_d (lift (CreateTable out_table)) (\<lambda>_.
     and_then_d (lift (AddField out_table route_id_field_name
                         (ftype route_id_field) (flength route_id_field))) (\<lambda>_.
     and_then_d (lift (AddField out_table ''Measure'' ''DOUBLE'' 0)) (\<lambda>_.
     and_then_d (lift (Cursor out_table [route_id_field_name, ''Measure''])) (\<lambda>_.
     and_then_d (lift (Cursor in_routes [route_id_field_name])) (\<lambda>cursor.
     and_then_d (populate out_table route_id_field_name measure_interval cursor) (\<lambda>_.
     lift (ret out_table))))))))"

subsection \<open>\<^verbatim>\<open>create_route_by_length\<close>\<close>

text \<open>The token \<^verbatim>\<open>SHAPE@LENGTH\<close> as the cursor hands it over: \<^verbatim>\<open>None\<close> for a row without
  geometry.\<close>

definition length_token :: "geometry \<Rightarrow> val" where
  "length_token g = (case g of NoGeometry \<Rightarrow> Null | _ \<Rightarrow> Num (SHAPE_LENGTH g))"

definition set_attr :: "string \<Rightarrow> val \<Rightarrow> feature \<Rightarrow> feature" where
  "set_attr nm v row = row\<lparr>attrs := AList.update nm v (attrs row)\<rparr>"

text \<open>The body of the update loop: \<^verbatim>\<open>row[0] = 0; row[1] = row[2]; cursor.updateRow(row)\<close>
  with the fields \<^verbatim>\<open>['FromMeasure', 'ToMeasure', 'SHAPE@LENGTH']\<close>.\<close>

definition update_measures :: "feature \<Rightarrow> feature" where
  "update_measures row =
     set_attr ''ToMeasure'' (length_token (shape row)) (set_attr ''FromMeasure'' (Num 0) row)"

definition updateRows :: "string \<Rightarrow> (feature \<Rightarrow> feature) \<Rightarrow> unit prog" where
  "updateRows ds f =
     (\<lambda>w. case map_of w ds of
            None \<Rightarrow> (Inl RuntimeError, w)
          | Some d \<Rightarrow> (Inr (), AList.update ds (d\<lparr>rows := map f (rows d)\<rparr>) w))"

definition create_route_by_length :: "engine \<Rightarrow> string \<Rightarrow> string \<Rightarrow> string \<Rightarrow> string prog" where
  "create_route_by_length eng in_features route_id_field route_feature_class =
     (\<lambda>w. let the_line = CreateUniqueName ''theLine'' ''in_memory'' w in
       (and_then (CopyFeatures in_features the_line) (\<lambda>_.
        and_then (AddField the_line ''FromMeasure'' ''DOUBLE'' 0) (\<lambda>_.
        and_then (AddField the_line ''ToMeasure'' ''DOUBLE'' 0) (\<lambda>_.
        and_then (Cursor the_line [''FromMeasure'', ''ToMeasure'']) (\<lambda>_.
        and_then (updateRows the_line update_measures) (\<lambda>_.
        and_then (CreateRoutes eng the_line route_id_field route_feature_class) (\<lambda>_.
        and_then (Delete the_line) (\<lambda>_.
        ret route_feature_class)))))))) w)"

subsection \<open>\<^verbatim>\<open>create_cross_section\<close>\<close>

text \<open>The search cursor's \<^verbatim>\<open>ORDER BY route_id, Measure\<close>: a stable insertion sort on the
  two attributes, numbers by value and strings by character codes.\<close>

fun str_le :: "string \<Rightarrow> string \<Rightarrow> bool" where
  "str_le [] _ = True"
| "str_le (x # xs) [] = False"
| "str_le (x # xs) (y # ys) =
     ((of_char x :: nat) < of_char y \<or> (x = y \<and> str_le xs ys))"

fun val_le :: "val \<Rightarrow> val \<Rightarrow> bool" where
  "val_le Null _ = True"
| "val_le (Num a) Null = False"
| "val_le (Num a) (Num b) = (a \<le> b)"
| "val_le (Num a) (Str t) = True"
| "val_le (Str s) (Str t) = str_le s t"
| "val_le (Str s) _ = False"

definition row_le :: "string \<Rightarrow> feature \<Rightarrow> feature \<Rightarrow> bool" where
  "row_le nm a b =
     (if attr a nm = attr b nm then val_le (attr a ''Measure'') (attr b ''Measure'')
      else val_le (attr a nm) (attr b nm))"

fun insert_row :: "string \<Rightarrow> feature \<Rightarrow> feature list \<Rightarrow> feature list" where
  "insert_row nm x [] = [x]"
| "insert_row nm x (y # ys) =
     (if row_le nm x y then x # y # ys else y # insert_row nm x ys)"

definition order_by :: "string \<Rightarrow> feature list \<Rightarrow> feature list" where
  "order_by nm rs = foldr (insert_row nm) rs []"

definition radians :: "real \<Rightarrow> real" where
  "radians a = a * pi / 180"

text \<open>The three points of one cross-section, lines 195 to 204.\<close>

definition cross_section_points ::
  "real \<Rightarrow> real \<Rightarrow> real \<Rightarrow> real \<Rightarrow> vertex list" where
  "cross_section_points mid_x mid_y bearing distance =
     (let from_x = mid_x + distance * cos bearing;
          from_y = mid_y + distance * sin bearing;
          to_x = mid_x - distance * cos bearing;
          to_y = mid_y - distance * sin bearing;
          from_point = (from_x, from_y, None);
          to_point = (to_x, to_y, None);
          mid_point = (mid_x, mid_y, None)
      in [from_point, mid_point, to_point])"

text \<open>The \<^verbatim>\<open>for\<close> loop over the station rows. Unpacking \<^verbatim>\<open>SHAPE@XY\<close> of a row without
  point geometry and \<^verbatim>\<open>math.radians\<close> of a value that is not a number are
  \<^verbatim>\<open>TypeError\<close>s.\<close>

fun sections :: "string \<Rightarrow> string \<Rightarrow> real \<Rightarrow> feature list \<Rightarrow> unit prog" where
  "sections out_fc route_id_field_name distance [] w = (Inr (), w)"
| "sections out_fc route_id_field_name distance (row # cursor) w =
     (case SHAPE_XY (shape row) of
        None \<Rightarrow> (Inl TypeError, w)
      | Some (mid_x, mid_y) \<Rightarrow>
     (case attr row ''LOC_ANGLE'' of
        Num a \<Rightarrow>
          sections out_fc route_id_field_name distance cursor
            (insertRow out_fc
               \<lparr>attrs = [(route_id_field_name, attr row route_id_field_name),
                         (''Measure'', attr row ''Measure'')],
                shape = Polyline [cross_section_points mid_x mid_y (radians a) distance]\<rparr> w)
      | _ \<Rightarrow> (Inl TypeError, w)))"

definition create_cross_section :: "string \<Rightarrow> string \<Rightarrow> real \<Rightarrow> string \<Rightarrow> unit prog" where
  "create_cross_section station_feature_class route_id_field_name cross_section_width
     out_cross_section_feature_class =
     and_then (CreateFeatureclass out_cross_section_feature_class station_feature_class) (\<lambda>_.
     and_then (get_field station_feature_class route_id_field_name) (\<lambda>route_id_field.
     and_then (AddField out_cross_section_feature_class route_id_field_name
                 (ftype route_id_field) (flength route_id_field)) (\<lambda>_.
     and_then (AddField out_cross_section_feature_class ''Measure'' ''DOUBLE'' 0) (\<lambda>_.
     let distance = cross_section_width / 2 in
     and_then (Cursor out_cross_section_feature_class [route_id_field_name, ''Measure'']) (\<lambda>_.
     and_then (Cursor station_feature_class
                 [route_id_field_name, ''Measure'', ''LOC_ANGLE'']) (\<lambda>cursor.
     sections out_cross_section_feature_class route_id_field_name distance
       (order_by route_id_field_name cursor)))))))"

subsection \<open>\<^verbatim>\<open>StationPointsAndCrossSections.execute\<close>\<close>

definition execute ::
  "engine \<Rightarrow> string \<Rightarrow> string \<Rightarrow> real \<Rightarrow> real \<Rightarrow> string \<Rightarrow> string \<Rightarrow> string \<Rightarrow> unit dprog" where
  "execute eng in_line_features route_id_field station_interval cross_section_width
     out_route_feature_class out_station_feature_class out_cross_section_feature_class =
     and_then_d (lift (create_route_by_length eng in_line_features route_id_field
                         out_route_feature_class)) (\<lambda>_.
     (\<lambda>w. let event_tbl = CreateUniqueName ''event_table'' ''in_memory'' w in
       (and_then_d (create_point_event_table out_route_feature_class route_id_field
                      station_interval event_tbl) (\<lambda>_.
        and_then_d (lift (MakeRouteEventLayer eng out_route_feature_class route_id_field
                            event_tbl ''Point Events'')) (\<lambda>_.
        and_then_d (lift (CopyFeatures ''Point Events'' out_station_feature_class)) (\<lambda>_.
        lift (create_cross_section out_station_feature_class route_id_field
                cross_section_width out_cross_section_feature_class))))) w))"

subsection \<open>Programs that delete nothing\<close>

definition keeps :: "'a dprog \<Rightarrow> bool" where
  "keeps m = (\<forall>w r w' k. m w = Some (r, w') \<longrightarrow> Exists w k \<longrightarrow> Exists w' k)"

subsection \<open>Sample inputs\<close>

definition ID_field :: field where
  "ID_field = \<lparr>fname = ''ID'', ftype = ''Long'', flength = 4\<rparr>"

definition ROUTE_ID_field :: field where
  "ROUTE_ID_field = \<lparr>fname = ''ROUTE_ID'', ftype = ''Text'', flength = 20\<rparr>"

definition sample_route :: feature where
  "sample_route =
     \<lparr>attrs = [(''ROUTE_ID'', Str ''A'')],
      shape = Polyline [[(0, 0, Some 0), (100, 0, Some 100)]]\<rparr>"

definition sample_routes :: dataset where
  "sample_routes = \<lparr>dfields = [oid_field, shape_field, ROUTE_ID_field], rows = [sample_route]\<rparr>"

definition sample_station :: feature where
  "sample_station =
     \<lparr>attrs = [(''ROUTE_ID'', Str ''A''), (''Measure'', Num 50), (''LOC_ANGLE'', Num 90)],
      shape = Point (50, 0, Some 50)\<rparr>"

definition sample_stations :: dataset where
  "sample_stations =
     \<lparr>dfields = [oid_field, shape_field, ROUTE_ID_field,
                 \<lparr>fname = ''Measure'', ftype = ''DOUBLE'', flength = 0\<rparr>,
                 \<lparr>fname = ''LOC_ANGLE'', ftype = ''DOUBLE'', flength = 0\<rparr>],
      rows = [sample_station]\<rparr>"

definition sample_line :: feature where
  "sample_line =
     \<lparr>attrs = [(''ROUTE_ID'', Str ''A''), (''ToMeasure'', Num 7)],
      shape = Polyline [[(0, 0, None), (100, 0, None)]]\<rparr>"

definition multipart_line :: feature where
  "multipart_line =
     \<lparr>attrs = [(''ROUTE_ID'', Str ''B'')],
      shape = Polyline [[(0, 0, None), (10, 0, None)], [(20, 0, None), (30, 0, None)]]\<rparr>"

definition straight_lines :: dataset where
  "straight_lines =
     \<lparr>dfields = [oid_field, shape_field, ROUTE_ID_field],
      rows = [\<lparr>attrs = [(''ROUTE_ID'', Str ''A'')],
               shape = Polyline [[(0, 0, None), (100, 0, None)]]\<rparr>]\<rparr>"

definition sample_lines :: dataset where
  "sample_lines =
     \<lparr>dfields = [oid_field, shape_field, ROUTE_ID_field], rows = [sample_line, multipart_line]\<rparr>"

definition id_routes :: dataset where
  "id_routes = \<lparr>dfields = [oid_field, shape_field, ID_field], rows = [sample_route]\<rparr>"

section \<open>Field lookup\<close>

lemma str_in_sublist: "str_in xs ys = sublist xs ys"
  by (induction ys) (auto simp: sublist_Cons_right)

lemma filter_head_find:
  "(case filter P xs of [] \<Rightarrow> a | x # _ \<Rightarrow> b x) = (case find P xs of None \<Rightarrow> a | Some x \<Rightarrow> b x)"
  by (induction xs) auto

lemma get_field_find:
  assumes "map_of w dataset = Some d"
  shows "get_field dataset field_name w =
           (case find (\<lambda>f. sublist (fname f) field_name) (dfields d) of
              None \<Rightarrow> (Inl IndexError, w)
            | Some f \<Rightarrow> (Inr f, w))"
proof -
  have "get_field dataset field_name w =
          (case filter (\<lambda>f. sublist (fname f) field_name) (dfields d) of
             [] \<Rightarrow> (Inl IndexError, w)
           | f # _ \<Rightarrow> (Inr f, w))"
    using assms
    by (simp add: get_field_def and_then_def Describe_def raise_def ret_def
        str_in_sublist split: list.split)
  then show ?thesis by (simp only: filter_head_find)
qed

text \<open>
  C10. On a dataset that exists, \<open>get_field\<close> returns the first field, in the dataset's
  field order, whose name is a substring of the requested name, and leaves the workspace
  as it is; it raises \<open>IndexError\<close> exactly when no field's name is a substring of the
  requested name. (The witness asks for \<open>ROUTE_ID\<close> on a dataset that has that field and
  gets the field \<open>ID\<close>, which comes first and whose name is contained in the request.)
\<close>

theorem get_field_first_substring:
  assumes "map_of w dataset = Some d"
  shows "get_field dataset field_name w =
           (case find (\<lambda>f. sublist (fname f) field_name) (dfields d) of
              None \<Rightarrow> (Inl IndexError, w)
            | Some f \<Rightarrow> (Inr f, w))
         \<and> ((fst (get_field dataset field_name w) = Inl IndexError) =
              (\<forall>f \<in> set (dfields d). \<not> sublist (fname f) field_name))"
  unfolding get_field_find [OF assms]
  by (auto simp: find_None_iff find_Some_iff split: option.split)

theorem get_field_first_substring_witness:
  "map_of [(''routes'', \<lparr>dfields = [oid_field, ID_field, ROUTE_ID_field], rows = []\<rparr>)] ''routes''
     = Some \<lparr>dfields = [oid_field, ID_field, ROUTE_ID_field], rows = []\<rparr>
   \<and> get_field ''routes'' ''ROUTE_ID''
        [(''routes'', \<lparr>dfields = [oid_field, ID_field, ROUTE_ID_field], rows = []\<rparr>)]
     = (Inr ID_field, [(''routes'', \<lparr>dfields = [oid_field, ID_field, ROUTE_ID_field], rows = []\<rparr>)])
   \<and> fst (get_field ''routes'' ''NAME''
        [(''routes'', \<lparr>dfields = [oid_field, ID_field, ROUTE_ID_field], rows = []\<rparr>)])
     = Inl IndexError"
  using get_field_first_substring [of "[(''routes'', \<lparr>dfields = [oid_field, ID_field, ROUTE_ID_field], rows = []\<rparr>)]" "''routes''" "\<lparr>dfields = [oid_field, ID_field, ROUTE_ID_field], rows = []\<rparr>" "''ROUTE_ID''"]
    get_field_first_substring [of "[(''routes'', \<lparr>dfields = [oid_field, ID_field, ROUTE_ID_field], rows = []\<rparr>)]" "''routes''" "\<lparr>dfields = [oid_field, ID_field, ROUTE_ID_field], rows = []\<rparr>" "''NAME''"]
  by (simp add: oid_field_def ID_field_def ROUTE_ID_field_def sublist_Cons_right)

section \<open>Rounding to a float\<close>

lemma rne_of_int [simp]: "rne (of_int k) = k"
  by (simp add: rne_def)

lemma rne_cases: "rne x = \<lfloor>x\<rfloor> \<or> rne x = \<lfloor>x\<rfloor> + 1"
  by (simp add: rne_def Let_def)

lemma rne_mono:
  assumes "x \<le> y"
  shows "rne x \<le> rne y"
proof (cases "\<lfloor>x\<rfloor> = \<lfloor>y\<rfloor>")
  case True
  then show ?thesis using assms by (auto simp: rne_def Let_def)
next
  case False
  with assms have "\<lfloor>x\<rfloor> < \<lfloor>y\<rfloor>" by (simp add: floor_mono order.not_eq_order_implies_strict)
  moreover have "rne x \<le> \<lfloor>x\<rfloor> + 1" using rne_cases [of x] by auto
  moreover have "\<lfloor>y\<rfloor> \<le> rne y" using rne_cases [of y] by auto
  ultimately show ?thesis by linarith
qed

lemma rne_ge: "of_int k \<le> x \<Longrightarrow> k \<le> rne x"
  using rne_mono [of "of_int k" x] by simp

lemma rne_le: "x \<le> of_int k \<Longrightarrow> rne x \<le> k"
  using rne_mono [of x "of_int k"] by simp

lemma rne_small: "0 \<le> x \<Longrightarrow> x < 1 / 2 \<Longrightarrow> rne x = 0"
proof -
  assume a: "0 \<le> x" "x < 1 / 2"
  then have "\<lfloor>x\<rfloor> = 0" by (simp add: floor_eq_iff)
  with a show ?thesis by (simp add: rne_def)
qed

lemma round_mag_exact:
  assumes "a / 2 powr of_int (expo a) = of_int k"
  shows "round_mag a = a"
proof -
  have "round_mag a = of_int k * 2 powr of_int (expo a)"
    by (simp add: round_mag_def assms)
  also have "\<dots> = a" using assms [symmetric] by simp
  finally show ?thesis .
qed

lemma pow2_int: "0 \<le> n \<Longrightarrow> 2 powr of_int n = (of_int (2 ^ nat n) :: real)"
  by (simp add: powr_real_of_int)

lemma binade:
  assumes "0 < a"
  shows "2 powr of_int \<lfloor>log 2 a\<rfloor> \<le> a" and "a < 2 powr (of_int \<lfloor>log 2 a\<rfloor> + 1)"
  using floor_log_eq_powr_iff [of a 2 "\<lfloor>log 2 a\<rfloor>"] assms by simp_all

lemma expo_ge: "- 1074 \<le> expo a"
  by (simp add: expo_def)

lemma expo_pos: "0 < a \<Longrightarrow> expo a = max (\<lfloor>log 2 a\<rfloor> - 52) (- 1074)"
  by (simp add: expo_def)

lemma round_mag_zero [simp]: "round_mag 0 = 0"
  using rne_of_int [of 0] by (simp add: round_mag_def)

lemma round_mag_nonneg: "0 \<le> a \<Longrightarrow> 0 \<le> round_mag a"
proof -
  assume "0 \<le> a"
  then have "of_int 0 \<le> a / 2 powr of_int (expo a)" by simp
  then have "0 \<le> rne (a / 2 powr of_int (expo a))" by (rule rne_ge)
  then show ?thesis by (simp add: round_mag_def)
qed

lemma quotient_less:
  assumes "0 < a"
  shows "a / 2 powr of_int (expo a) < 2 powr of_int (\<lfloor>log 2 a\<rfloor> + 1 - expo a)"
proof -
  have "a / 2 powr of_int (expo a) < 2 powr (of_int \<lfloor>log 2 a\<rfloor> + 1) / 2 powr of_int (expo a)"
    using binade(2) [OF assms] by (simp add: divide_strict_right_mono)
  also have "\<dots> = 2 powr of_int (\<lfloor>log 2 a\<rfloor> + 1 - expo a)"
    by (simp add: powr_diff)
  finally show ?thesis .
qed

lemma rne_quotient_le:
  assumes "0 < a"
  shows "rne (a / 2 powr of_int (expo a)) \<le> 2 ^ 53"
proof -
  have "\<lfloor>log 2 a\<rfloor> + 1 - expo a \<le> 53" using expo_pos [OF assms] by simp
  then have "(2::real) powr of_int (\<lfloor>log 2 a\<rfloor> + 1 - expo a) \<le> 2 powr of_int 53"
    by (subst powr_le_cancel_iff) simp_all
  with quotient_less [OF assms] have "a / 2 powr of_int (expo a) \<le> of_int (2 ^ 53)"
    by simp
  then show ?thesis by (rule rne_le)
qed

lemma round_mag_hi:
  assumes "0 < a"
  shows "round_mag a \<le> 2 powr (of_int \<lfloor>log 2 a\<rfloor> + 1)"
proof (cases "0 \<le> \<lfloor>log 2 a\<rfloor> + 1 - expo a")
  case True
  let ?n = "\<lfloor>log 2 a\<rfloor> + 1 - expo a"
  have "a / 2 powr of_int (expo a) \<le> of_int (2 ^ nat ?n)"
    using quotient_less [OF assms] pow2_int [OF True] by simp
  then have "rne (a / 2 powr of_int (expo a)) \<le> 2 ^ nat ?n" by (rule rne_le)
  then have "(of_int (rne (a / 2 powr of_int (expo a))) :: real) \<le> of_int (2 ^ nat ?n)"
    by (simp only: of_int_le_iff)
  then have "round_mag a \<le> 2 powr of_int ?n * 2 powr of_int (expo a)"
    unfolding round_mag_def pow2_int [OF True] by (simp add: mult_right_mono)
  also have "\<dots> = 2 powr (of_int \<lfloor>log 2 a\<rfloor> + 1)"
    by (simp add: powr_add [symmetric])
  finally show ?thesis .
next
  case False
  then have "\<lfloor>log 2 a\<rfloor> + 1 - expo a \<le> - 1" by simp
  then have "(2::real) powr of_int (\<lfloor>log 2 a\<rfloor> + 1 - expo a) \<le> 2 powr of_int (- 1)"
    by (subst powr_le_cancel_iff) simp_all
  also have "\<dots> = 1 / 2" by (simp add: powr_minus_divide)
  finally have "(2::real) powr of_int (\<lfloor>log 2 a\<rfloor> + 1 - expo a) \<le> 1 / 2" .
  with quotient_less [OF assms] have "a / 2 powr of_int (expo a) < 1 / 2"
    by (rule less_le_trans)
  moreover have "0 \<le> a / 2 powr of_int (expo a)" using assms by simp
  ultimately have "rne (a / 2 powr of_int (expo a)) = 0" by (intro rne_small)
  then show ?thesis by (simp add: round_mag_def)
qed

lemma round_mag_lo:
  assumes "0 < a" and "- 1074 \<le> \<lfloor>log 2 a\<rfloor> - 52"
  shows "2 powr of_int \<lfloor>log 2 a\<rfloor> \<le> round_mag a"
proof -
  have e: "expo a = \<lfloor>log 2 a\<rfloor> - 52" using expo_pos [OF assms(1)] assms(2) by simp
  have "2 powr of_int \<lfloor>log 2 a\<rfloor> / 2 powr of_int (expo a) \<le> a / 2 powr of_int (expo a)"
    using binade(1) [OF assms(1)] by (simp add: divide_right_mono)
  moreover have "2 powr of_int \<lfloor>log 2 a\<rfloor> / 2 powr of_int (expo a) = (2::real) powr of_int 52"
    unfolding e by (simp add: powr_diff [symmetric])
  ultimately have "of_int (2 ^ 52) \<le> a / 2 powr of_int (expo a)" by simp
  then have "2 ^ 52 \<le> rne (a / 2 powr of_int (expo a))" by (rule rne_ge)
  then have "(of_int (2 ^ 52) :: real) \<le> of_int (rne (a / 2 powr of_int (expo a)))"
    by (simp only: of_int_le_iff)
  then have "2 ^ 52 * 2 powr of_int (expo a) \<le> round_mag a"
    unfolding round_mag_def by (simp add: mult_right_mono)
  moreover have "(2::real) powr of_int \<lfloor>log 2 a\<rfloor> = 2 ^ 52 * 2 powr of_int (expo a)"
  proof -
    have "(2::real) powr of_int \<lfloor>log 2 a\<rfloor> = 2 powr (52 + of_int (expo a))"
      unfolding e by simp
    also have "\<dots> = 2 powr 52 * 2 powr of_int (expo a)" by (rule powr_add)
    finally show ?thesis by simp
  qed
  ultimately show ?thesis by simp
qed

lemma round_mag_mono:
  assumes "0 < a" and "a \<le> b"
  shows "round_mag a \<le> round_mag b"
proof -
  have b: "0 < b" using assms by simp
  have j: "\<lfloor>log 2 a\<rfloor> \<le> \<lfloor>log 2 b\<rfloor>"
    using assms by (intro floor_mono) simp
  then have e: "expo a \<le> expo b" using expo_pos [OF assms(1)] expo_pos [OF b] by simp
  show ?thesis
  proof (cases "expo a = expo b")
    case True
    have "a / 2 powr of_int (expo b) \<le> b / 2 powr of_int (expo b)"
      using assms(2) by (simp add: divide_right_mono)
    then have "rne (a / 2 powr of_int (expo b)) \<le> rne (b / 2 powr of_int (expo b))"
      by (rule rne_mono)
    then show ?thesis unfolding round_mag_def True by (simp add: mult_right_mono)
  next
    case False
    with e have lt: "expo a < expo b" by simp
    then have nb: "expo b = \<lfloor>log 2 b\<rfloor> - 52" and "- 1074 < expo b"
      using expo_pos [OF b] expo_ge [of a] by auto
    then have norm: "- 1074 \<le> \<lfloor>log 2 b\<rfloor> - 52" by simp
    have "\<lfloor>log 2 a\<rfloor> - 52 \<le> expo a" using expo_pos [OF assms(1)] by simp
    with lt nb have "\<lfloor>log 2 a\<rfloor> + 1 \<le> \<lfloor>log 2 b\<rfloor>" by simp
    then have "(2::real) powr (of_int \<lfloor>log 2 a\<rfloor> + 1) \<le> 2 powr of_int \<lfloor>log 2 b\<rfloor>"
      by (subst powr_le_cancel_iff) simp_all
    with round_mag_hi [OF assms(1)] have "round_mag a \<le> 2 powr of_int \<lfloor>log 2 b\<rfloor>"
      by (rule order_trans)
    then show ?thesis using round_mag_lo [OF b norm] by (rule order_trans)
  qed
qed

lemma double_round_zero [simp]: "double_round 0 = 0"
  by (simp add: double_round_def)

lemma double_round_pos: "0 < x \<Longrightarrow> double_round x = round_mag x"
  by (simp add: double_round_def)

lemma double_round_neg: "x < 0 \<Longrightarrow> double_round x = - round_mag (- x)"
  by (simp add: double_round_def)

lemma double_round_mono:
  assumes "x \<le> y"
  shows "double_round x \<le> double_round y"
proof -
  consider "0 < x" | "x = 0" | "x < 0" "y < 0" | "x < 0" "0 \<le> y" by linarith
  then show ?thesis
  proof cases
    case 1
    with assms show ?thesis by (simp add: double_round_pos round_mag_mono)
  next
    case 2
    with assms round_mag_nonneg [of y] show ?thesis
      by (cases "y = 0") (simp_all add: double_round_pos)
  next
    case 3
    with assms have "round_mag (- y) \<le> round_mag (- x)" by (intro round_mag_mono) simp_all
    with 3 show ?thesis by (simp add: double_round_neg)
  next
    case 4
    have "double_round x \<le> 0" using 4(1) round_mag_nonneg [of "- x"] by (simp add: double_round_neg)
    moreover have "0 \<le> double_round y"
      using 4(2) round_mag_nonneg [of y] by (cases "y = 0") (simp_all add: double_round_pos)
    ultimately show ?thesis by simp
  qed
qed

lemma round_mag_rep:
  assumes "0 < m" and "m < 2 ^ 53" and "- 1074 \<le> e"
  shows "round_mag (of_int m * 2 powr of_int e) = of_int m * 2 powr of_int e"
proof -
  let ?v = "of_int m * 2 powr of_int e :: real"
  have v: "0 < ?v" using assms(1) by simp
  have "?v < 2 ^ 53 * 2 powr of_int e"
    using assms(2) by (intro mult_strict_right_mono) (simp_all flip: of_int_less_iff)
  also have "\<dots> = 2 powr (of_int (e + 52) + 1)"
  proof -
    have "(2::real) powr (of_int (e + 52) + 1) = 2 powr (53 + of_int e)" by simp
    also have "\<dots> = 2 powr 53 * 2 powr of_int e" by (rule powr_add)
    finally show ?thesis by simp
  qed
  finally have "?v < 2 powr (of_int (e + 52) + 1)" .
  then have "log 2 ?v < of_int (e + 52) + 1"
    using v by (subst log_less_iff) simp_all
  then have "\<lfloor>log 2 ?v\<rfloor> \<le> e + 52" by (simp add: floor_le_iff)
  then have le: "expo ?v \<le> e" using expo_pos [OF v] assms(3) by simp
  have "?v / 2 powr of_int (expo ?v) = of_int m * 2 powr of_int (e - expo ?v)"
    by (simp add: powr_diff)
  also have "\<dots> = of_int (m * 2 ^ nat (e - expo ?v))"
  proof -
    have "(2::real) powr of_int (e - expo ?v) = of_int (2 ^ nat (e - expo ?v))"
      using le by (intro pow2_int) simp
    then show ?thesis by (simp only: of_int_mult)
  qed
  finally show ?thesis by (rule round_mag_exact)
qed

lemma round_mag_idem:
  assumes "0 < a"
  shows "round_mag (round_mag a) = round_mag a"
proof -
  let ?m = "rne (a / 2 powr of_int (expo a))"
  have m0: "0 \<le> ?m" using assms by (intro rne_ge) simp
  have m53: "?m \<le> 2 ^ 53" by (rule rne_quotient_le [OF assms])
  have rm: "round_mag a = of_int ?m * 2 powr of_int (expo a)" by (simp add: round_mag_def)
  consider "?m = 0" | "0 < ?m" "?m < 2 ^ 53" | "?m = 2 ^ 53" using m0 m53 by linarith
  then show ?thesis
  proof cases
    case 1
    then show ?thesis by (simp add: rm)
  next
    case 2
    then show ?thesis unfolding rm by (intro round_mag_rep expo_ge)
  next
    case 3
    have "of_int ?m * 2 powr of_int (expo a) = (of_int (2 ^ 52) :: real) * 2 powr of_int (expo a + 1)"
    proof -
      have "(2::real) powr of_int (expo a + 1) = 2 powr (of_int (expo a) + 1)" by simp
      also have "\<dots> = 2 powr of_int (expo a) * 2 powr 1" by (rule powr_add)
      finally show ?thesis unfolding 3 by simp
    qed
    moreover have "round_mag (of_int (2 ^ 52) * 2 powr of_int (expo a + 1))
        = of_int (2 ^ 52) * 2 powr of_int (expo a + 1)"
      using expo_ge [of a] by (intro round_mag_rep) simp_all
    ultimately show ?thesis unfolding rm by simp
  qed
qed

lemma double_round_idem [simp]: "double_round (double_round x) = double_round x"
proof -
  consider "x = 0" | "0 < x" | "x < 0" by linarith
  then show ?thesis
  proof cases
    case 1
    then show ?thesis by simp
  next
    case 2
    then have "0 \<le> round_mag x" by (intro round_mag_nonneg) simp
    then show ?thesis
      using 2 round_mag_idem [OF 2]
      by (cases "round_mag x = 0") (simp_all add: double_round_pos)
  next
    case 3
    then have "0 \<le> round_mag (- x)" by (intro round_mag_nonneg) simp
    then show ?thesis
      using 3 round_mag_idem [of "- x"]
      by (cases "round_mag (- x) = 0") (simp_all add: double_round_neg)
  qed
qed

lemma double_round_of_int:
  assumes "\<bar>n\<bar> < 2 ^ 53"
  shows "double_round (of_int n) = of_int n"
proof -
  have rep: "round_mag (of_int k) = of_int k" if "0 < k" "k < 2 ^ 53" for k
    using round_mag_rep [of k 0] that by simp
  consider "n = 0" | "0 < n" | "n < 0" by linarith
  then show ?thesis
  proof cases
    case 1
    then show ?thesis by simp
  next
    case 2
    with assms rep [of n] show ?thesis by (simp add: double_round_pos)
  next
    case 3
    with assms rep [of "- n"] show ?thesis by (simp add: double_round_neg)
  qed
qed

lemma double_round_numeral [simp]:
  "numeral k < (9007199254740992::int) \<Longrightarrow> double_round (numeral k) = numeral k"
  using double_round_of_int [of "numeral k"] by simp

lemma double_round_neg_numeral [simp]:
  "numeral k < (9007199254740992::int) \<Longrightarrow> double_round (- numeral k) = - numeral k"
  using double_round_of_int [of "- numeral k"] by simp

lemma double_round_one [simp]: "double_round 1 = 1"
  using double_round_of_int [of 1] by simp

text \<open>At \<open>10\<^sup>1\<^sup>6\<close> the floats are 2 apart: adding 1 changes nothing.\<close>

lemma absorbed: "double_round (10000000000000000 + 1) = 10000000000000000"
proof -
  let ?x = "10000000000000001 :: real"
  have "\<lfloor>log 2 ?x\<rfloor> = 53"
    by (subst floor_log_eq_powr_iff) simp_all
  then have e: "expo ?x = 1" by (simp add: expo_def)
  have "rne (?x / 2) = 5000000000000000"
    by (simp add: rne_def Let_def)
  then have "round_mag ?x = 10000000000000000"
    by (simp add: round_mag_def e)
  then show ?thesis by (simp add: double_round_pos)
qed

section \<open>Stepping\<close>

lemma advance_abs: "advance r step = advance r \<bar>step\<bar>"
  by (simp add: advance_def)

lemma advance_pos: "0 < step \<Longrightarrow> advance r step = double_round (r + step)"
  by (simp add: advance_def)

lemma advance_abs_sum: "advance r step = double_round (r + \<bar>step\<bar>)"
  by (simp add: advance_def)

lemma advance_float [simp]: "double_round (advance r step) = advance r step"
  by (simp add: advance_def)

lemma advance_ge: "double_round r = r \<Longrightarrow> r \<le> advance r step"
  using double_round_mono [of r "r + \<bar>step\<bar>"] by (simp add: advance_abs_sum)

lemma frange_empty: "stop \<le> r \<Longrightarrow> frange r stop step = Some []"
  by (subst frange.simps) simp

lemma frange_next:
  "r < stop \<Longrightarrow>
   frange r stop step = Option.bind (frange (advance r step) stop step) (\<lambda>ys. Some (r # ys))"
  by (subst frange.simps) simp

text \<open>What the loop returns is what it has yielded when it stops.\<close>

lemma frange_yields:
  assumes "frange r stop step = Some ys"
  shows "ys = yields (length ys) r stop step"
  by (rule frange.raw_induct
        [where P = "\<lambda>r stop step ys. ys = yields (length ys) r stop step", OF _ assms])
     (auto simp: bind_eq_Some_conv split: if_splits)

lemma yields_below: "m \<in> set (yields n r stop step) \<Longrightarrow> m < stop"
  by (induction n arbitrary: r) (auto split: if_splits)

lemma yields_above:
  "double_round r = r \<Longrightarrow> m \<in> set (yields n r stop step) \<Longrightarrow> r \<le> m"
proof (induction n arbitrary: r)
  case 0
  then show ?case by simp
next
  case (Suc n)
  show ?case
  proof (cases "m = r")
    case False
    with Suc.prems have "m \<in> set (yields n (advance r step) stop step)"
      by (auto split: if_splits)
    then have "advance r step \<le> m" by (intro Suc.IH) simp_all
    with advance_ge [OF Suc.prems(1), of step] show ?thesis by simp
  qed simp
qed

lemma yields_head:
  "r < stop \<Longrightarrow> yields (Suc n) r stop step \<noteq> [] \<and> hd (yields (Suc n) r stop step) = r"
  by simp

lemma yields_chain:
  "Suc i < length (yields n r stop step) \<Longrightarrow>
   yields n r stop step ! Suc i = advance (yields n r stop step ! i) step"
proof (induction n arbitrary: r i)
  case 0
  then show ?case by simp
next
  case (Suc n)
  then have lt: "r < stop" by (auto split: if_splits)
  with Suc.prems have len: "i < length (yields n (advance r step) stop step)" by simp
  show ?case
  proof (cases i)
    case 0
    with len obtain k where "n = Suc k" by (cases n) auto
    with lt len 0 show ?thesis by (auto split: if_splits)
  next
    case (Suc j)
    with len lt Suc.IH [of j "advance r step"] show ?thesis by simp
  qed
qed

lemma frange_props:
  assumes "frange start stop step = Some ys"
  shows "\<forall>m \<in> set ys. m < stop"
    and "start < stop \<longrightarrow> ys \<noteq> [] \<and> hd ys = start"
    and "\<forall>i. Suc i < length ys \<longrightarrow> ys ! Suc i = double_round (ys ! i + \<bar>step\<bar>)"
    and "double_round start = start \<longrightarrow> (\<forall>m \<in> set ys. start \<le> m)"
proof -
  note ys = frange_yields [OF assms]
  show "\<forall>m \<in> set ys. m < stop"
    using yields_below [of _ "length ys" start stop step] ys by auto
  show "start < stop \<longrightarrow> ys \<noteq> [] \<and> hd ys = start"
    using assms by (auto simp: frange_next bind_eq_Some_conv)
  show "\<forall>i. Suc i < length ys \<longrightarrow> ys ! Suc i = double_round (ys ! i + \<bar>step\<bar>)"
    using yields_chain [of _ "length ys" start stop step] ys
    by (auto simp: advance_abs_sum)
  show "double_round start = start \<longrightarrow> (\<forall>m \<in> set ys. start \<le> m)"
    using yields_above [of start _ "length ys" stop step] ys by auto
qed

text \<open>The loop depends on the step through \<open>advance\<close> only, so on its absolute value.\<close>

lemma frange_cong_aux:
  assumes "frange r stop step = Some ys"
  shows "\<forall>step'. (\<forall>x. advance x step = advance x step') \<longrightarrow> frange r stop step' = Some ys"
proof (rule frange.raw_induct
        [where P = "\<lambda>r stop step ys. \<forall>step'. (\<forall>x. advance x step = advance x step') \<longrightarrow>
                      frange r stop step' = Some ys", OF _ assms])
  fix f r stop step ys
  assume ih: "\<And>r stop step ys. f r stop step = Some ys \<Longrightarrow>
      \<forall>step'. (\<forall>x. advance x step = advance x step') \<longrightarrow> frange r stop step' = Some ys"
    and body: "(if r < stop then Option.bind (f (advance r step) stop step) (\<lambda>ys. Some (r # ys))
                else Some []) = Some ys"
  show "\<forall>step'. (\<forall>x. advance x step = advance x step') \<longrightarrow> frange r stop step' = Some ys"
  proof (intro allI impI)
    fix step'
    assume eq: "\<forall>x. advance x step = advance x step'"
    show "frange r stop step' = Some ys"
    proof (cases "r < stop")
      case True
      with body obtain zs where zs: "f (advance r step) stop step = Some zs" and "ys = r # zs"
        by (auto simp: bind_eq_Some_conv)
      from ih [OF zs] eq have "frange (advance r step') stop step' = Some zs" by simp
      with True \<open>ys = r # zs\<close> show ?thesis by (simp add: frange_next)
    next
      case False
      with body show ?thesis by (simp add: frange_empty)
    qed
  qed
qed

lemma frange_abs: "frange r stop step = frange r stop \<bar>step\<bar>"
proof (cases "frange r stop step")
  case (Some ys)
  with frange_cong_aux [OF Some] advance_abs [of _ step] show ?thesis by simp
next
  case None
  show ?thesis
  proof (cases "frange r stop \<bar>step\<bar>")
    case (Some ys)
    from frange_cong_aux [OF Some] advance_abs [of _ step] have "frange r stop step = Some ys"
      by simp
    with None show ?thesis by simp
  qed (simp add: None)
qed

text \<open>A loop variable that the addition does not change never reaches \<open>stop\<close>.\<close>

lemma frange_stuck_aux:
  assumes "frange r stop step = Some ys"
  shows "\<not> (advance r step = r \<and> r < stop)"
  by (rule frange.raw_induct
        [where P = "\<lambda>r stop step ys. \<not> (advance r step = r \<and> r < stop)", OF _ assms])
     (auto simp: bind_eq_Some_conv split: if_splits)

lemma frange_stuck:
  assumes "advance r step = r" and "r < stop"
  shows "frange r stop step = None"
  using frange_stuck_aux [of r stop step] assms by (cases "frange r stop step") auto

text \<open>Where every sum is a float, the values are the exact multiples.\<close>

lemma frange_exact:
  assumes "0 < d" and "d = \<bar>step\<bar>"
  shows "nat \<lceil>(stop - r) / d\<rceil> = n \<Longrightarrow>
         (\<forall>k. 0 < k \<and> k \<le> n \<longrightarrow> double_round (r + real k * d) = r + real k * d) \<Longrightarrow>
         frange r stop step = Some (map (\<lambda>k. r + real k * d) [0..<n])"
proof (induction n arbitrary: r)
  case 0
  then have "(stop - r) / d \<le> 0" by (simp add: ceiling_le_iff)
  with assms(1) have "stop \<le> r" by (simp add: divide_le_0_iff)
  then show ?case by (simp add: frange_empty)
next
  case (Suc n)
  then have c: "\<lceil>(stop - r) / d\<rceil> = int n + 1" by linarith
  then have "0 < (stop - r) / d" by linarith
  with assms(1) have lt: "r < stop" by (simp add: zero_less_divide_iff)
  have nxt: "advance r step = r + d"
    using Suc.prems(2) [rule_format, of 1] assms(2) by (simp add: advance_abs_sum)
  have "(stop - (r + d)) / d = (stop - r) / d - 1"
    using assms(1) by (simp add: field_simps)
  then have cnt: "nat \<lceil>(stop - (r + d)) / d\<rceil> = n" using c by simp
  have ex: "\<forall>k. 0 < k \<and> k \<le> n \<longrightarrow> double_round (r + d + real k * d) = r + d + real k * d"
  proof (intro allI impI)
    fix k assume "0 < k \<and> k \<le> n"
    then have "0 < Suc k \<and> Suc k \<le> Suc n" by simp
    then have "double_round (r + real (Suc k) * d) = r + real (Suc k) * d"
      using Suc.prems(2) by blast
    moreover have "r + real (Suc k) * d = r + d + real k * d"
      by (simp add: algebra_simps)
    ultimately show "double_round (r + d + real k * d) = r + d + real k * d"
      by (simp only:)
  qed
  have ih: "frange (r + d) stop step = Some (map (\<lambda>k. r + d + real k * d) [0..<n])"
    using Suc.IH [OF cnt ex] .
  have shift: "map (\<lambda>k. r + real k * d) [0..<Suc n] = r # map (\<lambda>k. r + d + real k * d) [0..<n]"
    by (simp add: upt_conv_Cons map_Suc_upt [symmetric] algebra_simps del: upt_Suc)
  show ?case using lt nxt ih shift by (simp add: frange_next)
qed

lemma frange_count:
  assumes "0 < d"
  shows "(r + real k * d < stop) = (k < nat \<lceil>(stop - r) / d\<rceil>)"
proof -
  have "(k < nat \<lceil>(stop - r) / d\<rceil>) = (int k < \<lceil>(stop - r) / d\<rceil>)" by linarith
  also have "\<dots> = (real k < (stop - r) / d)" by (simp add: less_ceiling_iff)
  also have "\<dots> = (r + real k * d < stop)" using assms by (simp add: field_simps)
  finally show ?thesis by simp
qed

lemma frange_eval:
  "frange 0 9 3 = Some [0, 3, 6]"
  "frange 0 100 25 = Some [0, 25, 50, 75]"
  "frange 0 10 3 = Some [0, 3, 6, 9]"
  by (simp_all add: frange.simps advance_def)



text \<open>
  Stepping from 0 to 1 by the float nearest to one tenth,
  \<open>3602879701896397 / 2\<^sup>5\<^sup>5\<close>: the sums are rounded one after the other, and the
  eleventh value, \<open>1 - 2\<^sup>-\<^sup>5\<^sup>3\<close>, is still below 1.
\<close>

lemma tenth_float: "double_round (1 / 10) = 3602879701896397 / 36028797018963968"
proof -
  let ?x = "1 / 10 :: real"
  have "\<lfloor>log 2 ?x\<rfloor> = - 4"
    by (subst floor_log_eq_powr_iff) (simp_all add: powr_minus_divide)
  then have e: "expo ?x = - 56" by (simp add: expo_def)
  have "rne (?x * 72057594037927936) = 7205759403792794"
    by (simp add: rne_def Let_def)
  then have "round_mag ?x = 3602879701896397 / 36028797018963968"
    by (simp add: round_mag_def e powr_minus_divide)
  then show ?thesis by (simp add: double_round_pos)
qed

lemma tenth_sum_1: "double_round (3602879701896397 / 18014398509481984) = 3602879701896397 / 18014398509481984"
proof -
  let ?x = "3602879701896397 / 18014398509481984 :: real"
  have "\<lfloor>log 2 ?x\<rfloor> = - 3"
    by (subst floor_log_eq_powr_iff) (simp_all add: powr_minus_divide)
  then have e: "expo ?x = - 55" by (simp add: expo_def)
  have "rne (?x * 36028797018963968) = 7205759403792794"
    by (simp add: rne_def Let_def)
  then have "round_mag ?x = 3602879701896397 / 18014398509481984"
    by (simp add: round_mag_def e powr_minus_divide)
  then show ?thesis by (simp add: double_round_pos)
qed

lemma tenth_sum_2: "double_round (10808639105689191 / 36028797018963968) = 1351079888211149 / 4503599627370496"
proof -
  let ?x = "10808639105689191 / 36028797018963968 :: real"
  have "\<lfloor>log 2 ?x\<rfloor> = - 2"
    by (subst floor_log_eq_powr_iff) (simp_all add: powr_minus_divide)
  then have e: "expo ?x = - 54" by (simp add: expo_def)
  have "rne (?x * 18014398509481984) = 5404319552844596"
    by (simp add: rne_def Let_def)
  then have "round_mag ?x = 1351079888211149 / 4503599627370496"
    by (simp add: round_mag_def e powr_minus_divide)
  then show ?thesis by (simp add: double_round_pos)
qed

lemma tenth_sum_3: "double_round (14411518807585589 / 36028797018963968) = 3602879701896397 / 9007199254740992"
proof -
  let ?x = "14411518807585589 / 36028797018963968 :: real"
  have "\<lfloor>log 2 ?x\<rfloor> = - 2"
    by (subst floor_log_eq_powr_iff) (simp_all add: powr_minus_divide)
  then have e: "expo ?x = - 54" by (simp add: expo_def)
  have "rne (?x * 18014398509481984) = 7205759403792794"
    by (simp add: rne_def Let_def)
  then have "round_mag ?x = 3602879701896397 / 9007199254740992"
    by (simp add: round_mag_def e powr_minus_divide)
  then show ?thesis by (simp add: double_round_pos)
qed

lemma tenth_sum_4: "double_round (18014398509481985 / 36028797018963968) = 1 / 2"
proof -
  let ?x = "18014398509481985 / 36028797018963968 :: real"
  have "\<lfloor>log 2 ?x\<rfloor> = - 1"
    by (subst floor_log_eq_powr_iff) (simp_all add: powr_minus_divide)
  then have e: "expo ?x = - 53" by (simp add: expo_def)
  have "rne (?x * 9007199254740992) = 4503599627370496"
    by (simp add: rne_def Let_def)
  then have "round_mag ?x = 1 / 2"
    by (simp add: round_mag_def e powr_minus_divide)
  then show ?thesis by (simp add: double_round_pos)
qed

lemma tenth_sum_5: "double_round (21617278211378381 / 36028797018963968) = 5404319552844595 / 9007199254740992"
proof -
  let ?x = "21617278211378381 / 36028797018963968 :: real"
  have "\<lfloor>log 2 ?x\<rfloor> = - 1"
    by (subst floor_log_eq_powr_iff) (simp_all add: powr_minus_divide)
  then have e: "expo ?x = - 53" by (simp add: expo_def)
  have "rne (?x * 9007199254740992) = 5404319552844595"
    by (simp add: rne_def Let_def)
  then have "round_mag ?x = 5404319552844595 / 9007199254740992"
    by (simp add: round_mag_def e powr_minus_divide)
  then show ?thesis by (simp add: double_round_pos)
qed

lemma tenth_sum_6: "double_round (25220157913274777 / 36028797018963968) = 3152519739159347 / 4503599627370496"
proof -
  let ?x = "25220157913274777 / 36028797018963968 :: real"
  have "\<lfloor>log 2 ?x\<rfloor> = - 1"
    by (subst floor_log_eq_powr_iff) (simp_all add: powr_minus_divide)
  then have e: "expo ?x = - 53" by (simp add: expo_def)
  have "rne (?x * 9007199254740992) = 6305039478318694"
    by (simp add: rne_def Let_def)
  then have "round_mag ?x = 3152519739159347 / 4503599627370496"
    by (simp add: round_mag_def e powr_minus_divide)
  then show ?thesis by (simp add: double_round_pos)
qed

lemma tenth_sum_7: "double_round (28823037615171173 / 36028797018963968) = 7205759403792793 / 9007199254740992"
proof -
  let ?x = "28823037615171173 / 36028797018963968 :: real"
  have "\<lfloor>log 2 ?x\<rfloor> = - 1"
    by (subst floor_log_eq_powr_iff) (simp_all add: powr_minus_divide)
  then have e: "expo ?x = - 53" by (simp add: expo_def)
  have "rne (?x * 9007199254740992) = 7205759403792793"
    by (simp add: rne_def Let_def)
  then have "round_mag ?x = 7205759403792793 / 9007199254740992"
    by (simp add: round_mag_def e powr_minus_divide)
  then show ?thesis by (simp add: double_round_pos)
qed

lemma tenth_sum_8: "double_round (32425917317067569 / 36028797018963968) = 2026619832316723 / 2251799813685248"
proof -
  let ?x = "32425917317067569 / 36028797018963968 :: real"
  have "\<lfloor>log 2 ?x\<rfloor> = - 1"
    by (subst floor_log_eq_powr_iff) (simp_all add: powr_minus_divide)
  then have e: "expo ?x = - 53" by (simp add: expo_def)
  have "rne (?x * 9007199254740992) = 8106479329266892"
    by (simp add: rne_def Let_def)
  then have "round_mag ?x = 2026619832316723 / 2251799813685248"
    by (simp add: round_mag_def e powr_minus_divide)
  then show ?thesis by (simp add: double_round_pos)
qed

lemma tenth_sum_9: "double_round (36028797018963965 / 36028797018963968) = 9007199254740991 / 9007199254740992"
proof -
  let ?x = "36028797018963965 / 36028797018963968 :: real"
  have "\<lfloor>log 2 ?x\<rfloor> = - 1"
    by (subst floor_log_eq_powr_iff) (simp_all add: powr_minus_divide)
  then have e: "expo ?x = - 53" by (simp add: expo_def)
  have "rne (?x * 9007199254740992) = 9007199254740991"
    by (simp add: rne_def Let_def)
  then have "round_mag ?x = 9007199254740991 / 9007199254740992"
    by (simp add: round_mag_def e powr_minus_divide)
  then show ?thesis by (simp add: double_round_pos)
qed

lemma tenth_sum_10: "double_round (39631676720860361 / 36028797018963968) = 4953959590107545 / 4503599627370496"
proof -
  let ?x = "39631676720860361 / 36028797018963968 :: real"
  have "\<lfloor>log 2 ?x\<rfloor> = 0"
    by (subst floor_log_eq_powr_iff) (simp_all add: powr_minus_divide)
  then have e: "expo ?x = - 52" by (simp add: expo_def)
  have "rne (?x * 4503599627370496) = 4953959590107545"
    by (simp add: rne_def Let_def)
  then have "round_mag ?x = 4953959590107545 / 4503599627370496"
    by (simp add: round_mag_def e powr_minus_divide)
  then show ?thesis by (simp add: double_round_pos)
qed

lemma tenths:
  "frange 0 1 (3602879701896397 / 36028797018963968)
     = Some [0,
             3602879701896397 / 36028797018963968,
             3602879701896397 / 18014398509481984,
             1351079888211149 / 4503599627370496,
             3602879701896397 / 9007199254740992,
             1 / 2,
             5404319552844595 / 9007199254740992,
             3152519739159347 / 4503599627370496,
             7205759403792793 / 9007199254740992,
             2026619832316723 / 2251799813685248,
             9007199254740991 / 9007199254740992]"
proof -
  let ?s = "3602879701896397 / 36028797018963968 :: real"
  have s: "double_round ?s = ?s"
    using double_round_idem [of "1 / 10"] unfolding tenth_float .
  have a0: "advance 0 ?s = 3602879701896397 / 36028797018963968" using s by (simp add: advance_def)
  have a1: "advance (3602879701896397 / 36028797018963968) ?s = 3602879701896397 / 18014398509481984"
    by (simp add: advance_def tenth_sum_1)
  have a2: "advance (3602879701896397 / 18014398509481984) ?s = 1351079888211149 / 4503599627370496"
    by (simp add: advance_def tenth_sum_2)
  have a3: "advance (1351079888211149 / 4503599627370496) ?s = 3602879701896397 / 9007199254740992"
    by (simp add: advance_def tenth_sum_3)
  have a4: "advance (3602879701896397 / 9007199254740992) ?s = 1 / 2"
    by (simp add: advance_def tenth_sum_4)
  have a5: "advance (1 / 2) ?s = 5404319552844595 / 9007199254740992"
    by (simp add: advance_def tenth_sum_5)
  have a6: "advance (5404319552844595 / 9007199254740992) ?s = 3152519739159347 / 4503599627370496"
    by (simp add: advance_def tenth_sum_6)
  have a7: "advance (3152519739159347 / 4503599627370496) ?s = 7205759403792793 / 9007199254740992"
    by (simp add: advance_def tenth_sum_7)
  have a8: "advance (7205759403792793 / 9007199254740992) ?s = 2026619832316723 / 2251799813685248"
    by (simp add: advance_def tenth_sum_8)
  have a9: "advance (2026619832316723 / 2251799813685248) ?s = 9007199254740991 / 9007199254740992"
    by (simp add: advance_def tenth_sum_9)
  have a10: "advance (9007199254740991 / 9007199254740992) ?s = 4953959590107545 / 4503599627370496"
    by (simp add: advance_def tenth_sum_10)
  have f11: "frange (4953959590107545 / 4503599627370496) 1 ?s = Some []"
    by (rule frange_empty) simp
  have f10: "frange (9007199254740991 / 9007199254740992) 1 ?s = Some [9007199254740991 / 9007199254740992]"
    by (simp add: frange_next a10 f11)
  have f9: "frange (2026619832316723 / 2251799813685248) 1 ?s = Some [2026619832316723 / 2251799813685248, 9007199254740991 / 9007199254740992]"
    by (simp add: frange_next a9 f10)
  have f8: "frange (7205759403792793 / 9007199254740992) 1 ?s = Some [7205759403792793 / 9007199254740992, 2026619832316723 / 2251799813685248, 9007199254740991 / 9007199254740992]"
    by (simp add: frange_next a8 f9)
  have f7: "frange (3152519739159347 / 4503599627370496) 1 ?s = Some [3152519739159347 / 4503599627370496, 7205759403792793 / 9007199254740992, 2026619832316723 / 2251799813685248, 9007199254740991 / 9007199254740992]"
    by (simp add: frange_next a7 f8)
  have f6: "frange (5404319552844595 / 9007199254740992) 1 ?s = Some [5404319552844595 / 9007199254740992, 3152519739159347 / 4503599627370496, 7205759403792793 / 9007199254740992, 2026619832316723 / 2251799813685248, 9007199254740991 / 9007199254740992]"
    by (simp add: frange_next a6 f7)
  have f5: "frange (1 / 2) 1 ?s = Some [1 / 2, 5404319552844595 / 9007199254740992, 3152519739159347 / 4503599627370496, 7205759403792793 / 9007199254740992, 2026619832316723 / 2251799813685248, 9007199254740991 / 9007199254740992]"
    by (simp add: frange_next a5 f6)
  have f4: "frange (3602879701896397 / 9007199254740992) 1 ?s = Some [3602879701896397 / 9007199254740992, 1 / 2, 5404319552844595 / 9007199254740992, 3152519739159347 / 4503599627370496, 7205759403792793 / 9007199254740992, 2026619832316723 / 2251799813685248, 9007199254740991 / 9007199254740992]"
    by (simp add: frange_next a4 f5)
  have f3: "frange (1351079888211149 / 4503599627370496) 1 ?s = Some [1351079888211149 / 4503599627370496, 3602879701896397 / 9007199254740992, 1 / 2, 5404319552844595 / 9007199254740992, 3152519739159347 / 4503599627370496, 7205759403792793 / 9007199254740992, 2026619832316723 / 2251799813685248, 9007199254740991 / 9007199254740992]"
    by (simp add: frange_next a3 f4)
  have f2: "frange (3602879701896397 / 18014398509481984) 1 ?s = Some [3602879701896397 / 18014398509481984, 1351079888211149 / 4503599627370496, 3602879701896397 / 9007199254740992, 1 / 2, 5404319552844595 / 9007199254740992, 3152519739159347 / 4503599627370496, 7205759403792793 / 9007199254740992, 2026619832316723 / 2251799813685248, 9007199254740991 / 9007199254740992]"
    by (simp add: frange_next a2 f3)
  have f1: "frange (3602879701896397 / 36028797018963968) 1 ?s = Some [3602879701896397 / 36028797018963968, 3602879701896397 / 18014398509481984, 1351079888211149 / 4503599627370496, 3602879701896397 / 9007199254740992, 1 / 2, 5404319552844595 / 9007199254740992, 3152519739159347 / 4503599627370496, 7205759403792793 / 9007199254740992, 2026619832316723 / 2251799813685248, 9007199254740991 / 9007199254740992]"
    by (simp add: frange_next a1 f2)
  have f0: "frange (0) 1 ?s = Some [0, 3602879701896397 / 36028797018963968, 3602879701896397 / 18014398509481984, 1351079888211149 / 4503599627370496, 3602879701896397 / 9007199254740992, 1 / 2, 5404319552844595 / 9007199254740992, 3152519739159347 / 4503599627370496, 7205759403792793 / 9007199254740992, 2026619832316723 / 2251799813685248, 9007199254740991 / 9007199254740992]"
    by (simp add: frange_next a0 f1)
  from f0 show ?thesis .
qed





section \<open>The event table\<close>


lemma float_M_float: "float_M p = Inr m \<Longrightarrow> double_round m = m"
  by (auto simp: float_M_def split: option.splits)

lemma frange_bounds:
  assumes "double_round start = start" and "frange start stop step = Some ys"
  shows "\<forall>m \<in> set ys. start \<le> m \<and> m < stop"
  using frange_props(1,4) [OF assms(2)] assms(1) by blast

lemma insertRow_map_of:
  "map_of w out = Some t \<Longrightarrow>
   map_of (insertRow out row w) = (map_of w)(out \<mapsto> t\<lparr>rows := rows t @ [row]\<rparr>)"
  by (simp add: insertRow_def update_conv')

lemma foldl_insertRow:
  "map_of w out = Some t \<Longrightarrow>
   map_of (foldl (\<lambda>w' m. insertRow out (f m) w') w ms)
     = (map_of w)(out \<mapsto> t\<lparr>rows := rows t @ map f ms\<rparr>)"
proof (induction ms arbitrary: w t)
  case Nil
  then show ?case by (auto simp: fun_eq_iff)
next
  case (Cons m ms)
  have "map_of (insertRow out (f m) w) out = Some (t\<lparr>rows := rows t @ [f m]\<rparr>)"
    using Cons.prems by (simp add: insertRow_map_of)
  from Cons.IH [OF this] show ?case
    using Cons.prems by (auto simp: insertRow_map_of fun_eq_iff)
qed

lemma populate_rows:
  "populate out_table nm measure_interval cursor w = Some (r, w') \<Longrightarrow>
   map_of w out_table = Some t \<Longrightarrow>
   \<exists>new. map_of w' = (map_of w)(out_table \<mapsto> t\<lparr>rows := rows t @ new\<rparr>)
     \<and> (\<forall>e \<in> set new. \<exists>route \<in> set cursor. \<exists>first_measure last_measure m.
           float_M (firstPoint (shape route)) = Inr first_measure
         \<and> float_M (lastPoint (shape route)) = Inr last_measure
         \<and> e = event_row nm (attr route nm) m
         \<and> first_measure \<le> m \<and> m < last_measure)
     \<and> (r = Inr () \<longrightarrow>
          (\<forall>route \<in> set cursor. \<forall>first_measure last_measure.
             float_M (firstPoint (shape route)) = Inr first_measure
           \<and> float_M (lastPoint (shape route)) = Inr last_measure
           \<and> first_measure < last_measure
           \<longrightarrow> event_row nm (attr route nm) first_measure \<in> set new))"
proof (induction cursor arbitrary: w t)
  case Nil
  then have "w' = w" by simp
  with Nil show ?case by (intro exI [of _ "[]"]) (auto simp: fun_eq_iff)
next
  case (Cons row cursor)
  show ?case
  proof (cases "float_M (firstPoint (shape row))")
    case (Inl e)
    with Cons.prems have "w' = w" and "r = Inl e" by simp_all
    with Cons.prems show ?thesis by (intro exI [of _ "[]"]) (auto simp: fun_eq_iff)
  next
    case first: (Inr first_measure)
    show ?thesis
    proof (cases "float_M (lastPoint (shape row))")
      case (Inl e)
      with first Cons.prems have "w' = w" and "r = Inl e" by simp_all
      with Cons.prems show ?thesis by (intro exI [of _ "[]"]) (auto simp: fun_eq_iff)
    next
      case last: (Inr last_measure)
      obtain ys where ys: "frange first_measure last_measure measure_interval = Some ys"
        using Cons.prems(1) first last
        by (cases "frange first_measure last_measure measure_interval") auto
      let ?f = "\<lambda>m. event_row nm (attr row nm) m"
      let ?w1 = "foldl (\<lambda>w' m. insertRow out_table (?f m) w') w ys"
      have step: "populate out_table nm measure_interval cursor ?w1 = Some (r, w')"
        using Cons.prems(1) first last ys by simp
      have w1: "map_of ?w1 = (map_of w)(out_table \<mapsto> t\<lparr>rows := rows t @ map ?f ys\<rparr>)"
        using foldl_insertRow [OF Cons.prems(2)] .
      then have "map_of ?w1 out_table = Some (t\<lparr>rows := rows t @ map ?f ys\<rparr>)" by simp
      from Cons.IH [OF step this] obtain new where
        new: "map_of w' = (map_of ?w1)(out_table \<mapsto>
                (t\<lparr>rows := rows t @ map ?f ys\<rparr>)\<lparr>rows := rows (t\<lparr>rows := rows t @ map ?f ys\<rparr>) @ new\<rparr>)"
        and rng: "\<forall>e \<in> set new. \<exists>route \<in> set cursor. \<exists>first_measure last_measure m.
                 float_M (firstPoint (shape route)) = Inr first_measure
               \<and> float_M (lastPoint (shape route)) = Inr last_measure
               \<and> e = event_row nm (attr route nm) m
               \<and> first_measure \<le> m \<and> m < last_measure"
        and fst: "r = Inr () \<longrightarrow>
          (\<forall>route \<in> set cursor. \<forall>first_measure last_measure.
             float_M (firstPoint (shape route)) = Inr first_measure
           \<and> float_M (lastPoint (shape route)) = Inr last_measure
           \<and> first_measure < last_measure
           \<longrightarrow> event_row nm (attr route nm) first_measure \<in> set new)"
        by blast
      have here: "\<forall>e \<in> set (map ?f ys). \<exists>m. e = ?f m \<and> first_measure \<le> m \<and> m < last_measure"
        using frange_bounds [OF float_M_float [OF first] ys] by auto
      have start: "first_measure < last_measure \<longrightarrow> ?f first_measure \<in> set (map ?f ys)"
        using frange_props(2) [OF ys] by (cases ys) auto
      show ?thesis
      proof (intro exI [of _ "map ?f ys @ new"] conjI ballI impI allI)
        show "map_of w' = (map_of w)(out_table \<mapsto> t\<lparr>rows := rows t @ map ?f ys @ new\<rparr>)"
          using new w1 by (auto simp: fun_eq_iff)
      next
        fix e assume "e \<in> set (map ?f ys @ new)"
        then consider "e \<in> set (map ?f ys)" | "e \<in> set new" by auto
        then show "\<exists>route \<in> set (row # cursor). \<exists>first_measure last_measure m.
                 float_M (firstPoint (shape route)) = Inr first_measure
               \<and> float_M (lastPoint (shape route)) = Inr last_measure
               \<and> e = event_row nm (attr route nm) m
               \<and> first_measure \<le> m \<and> m < last_measure"
        proof cases
          case 1
          with here first last show ?thesis by (intro bexI [of _ row]) auto
        next
          case 2
          with rng show ?thesis by fastforce
        qed
      next
        fix route a b
        assume ok: "r = Inr ()" and mem: "route \<in> set (row # cursor)"
          and ab: "float_M (firstPoint (shape route)) = Inr a
             \<and> float_M (lastPoint (shape route)) = Inr b \<and> a < b"
        show "event_row nm (attr route nm) a \<in> set (map ?f ys @ new)"
        proof (cases "route = row")
          case True
          with ab first last have "a = first_measure" and "a < last_measure" by simp_all
          with start True show ?thesis by simp
        next
          case False
          with mem have "route \<in> set cursor" by simp
          with fst ok ab show ?thesis by auto
        qed
      qed
    qed
  qed
qed

lemma AddField_returns:
  assumes "map_of w ds = Some t"
  shows "\<exists>w' t'. AddField ds nm ty len w = (Inr (), w')
           \<and> map_of w' = (map_of w)(ds \<mapsto> t') \<and> rows t' = rows t
           \<and> set (field_names t') = insert nm (set (field_names t))"
proof (cases "nm \<in> set (field_names t)")
  case True
  then have "AddField ds nm ty len w = (Inr (), w)"
    using assms by (simp add: AddField_def)
  moreover have "map_of w = (map_of w)(ds \<mapsto> t)"
    using assms by (auto simp: fun_eq_iff)
  ultimately show ?thesis using True by (auto simp: insert_absorb)
next
  case False
  let ?t = "t\<lparr>dfields := dfields t @ [\<lparr>fname = nm, ftype = ty, flength = len\<rparr>]\<rparr>"
  have "AddField ds nm ty len w = (Inr (), AList.update ds ?t w)"
    using assms False by (simp add: AddField_def)
  moreover have "map_of (AList.update ds ?t w) = (map_of w)(ds \<mapsto> ?t)"
    by (simp add: update_conv')
  moreover have "set (field_names ?t) = insert nm (set (field_names t))"
    by (simp add: field_names_def)
  ultimately show ?thesis by (intro exI [of _ "AList.update ds ?t w"] exI [of _ ?t]) simp
qed

lemma create_point_event_table_cases:
  assumes "in_routes \<noteq> out_table" and "map_of w in_routes = Some d"
  shows "(create_point_event_table in_routes nm measure_interval out_table w
            = Some (Inl IndexError, w)
          \<and> (\<forall>f \<in> set (dfields d). \<not> sublist (fname f) nm))
       \<or> (\<exists>w3. create_point_event_table in_routes nm measure_interval out_table w
                  = Some (Inl RuntimeError, w3)
              \<and> nm \<notin> set (field_names d))
       \<or> (\<exists>w3 t. map_of w3 out_table = Some t \<and> rows t = [] \<and> map_of w3 in_routes = Some d
              \<and> create_point_event_table in_routes nm measure_interval out_table w
                  = (case populate out_table nm measure_interval (rows d) w3 of
                       None \<Rightarrow> None
                     | Some (Inl e, w4) \<Rightarrow> Some (Inl e, w4)
                     | Some (Inr u, w4) \<Rightarrow> Some (Inr out_table, w4)))"
proof (cases "find (\<lambda>f. sublist (fname f) nm) (dfields d)")
  case None
  then have gf: "get_field in_routes nm w = (Inl IndexError, w)"
    using get_field_find [OF assms(2), of nm] by simp
  from None have "\<forall>f \<in> set (dfields d). \<not> sublist (fname f) nm"
    by (simp add: find_None_iff)
  then show ?thesis
    by (simp add: create_point_event_table_def and_then_d_def lift_def gf)
next
  case (Some route_id_field)
  then have gf: "get_field in_routes nm w = (Inr route_id_field, w)"
    using get_field_find [OF assms(2), of nm] by simp
  let ?t0 = "\<lparr>dfields = [oid_field], rows = []\<rparr>"
  let ?w1 = "AList.update out_table ?t0 w"
  have ct: "CreateTable out_table w = (Inr (), ?w1)" by (simp add: CreateTable_def)
  have w1: "map_of ?w1 = (map_of w)(out_table \<mapsto> ?t0)" by (simp add: update_conv')
  then have "map_of ?w1 out_table = Some ?t0" by simp
  from AddField_returns [OF this, of nm "ftype route_id_field" "flength route_id_field"]
  obtain w2 t2 where a1: "AddField out_table nm (ftype route_id_field) (flength route_id_field) ?w1
        = (Inr (), w2)"
    and w2: "map_of w2 = (map_of ?w1)(out_table \<mapsto> t2)" and r2: "rows t2 = []"
    and f2: "set (field_names t2) = insert nm (set (field_names ?t0))"
    by auto
  from w2 have "map_of w2 out_table = Some t2" by simp
  from AddField_returns [OF this, of "''Measure''" "''DOUBLE''" 0]
  obtain w3 t3 where a2: "AddField out_table ''Measure'' ''DOUBLE'' 0 w2 = (Inr (), w3)"
    and w3: "map_of w3 = (map_of w2)(out_table \<mapsto> t3)" and r3: "rows t3 = rows t2"
    and f3: "set (field_names t3) = insert ''Measure'' (set (field_names t2))"
    by auto
  have out3: "map_of w3 out_table = Some t3" using w3 by simp
  have in3: "map_of w3 in_routes = Some d" using w3 w2 w1 assms by simp
  have c1: "Cursor out_table [nm, ''Measure''] w3 = (Inr (rows t3), w3)"
    using out3 f3 f2 by (simp add: Cursor_def)
  have c2: "Cursor in_routes [nm] w3 =
      (if nm \<in> set (field_names d) then (Inr (rows d), w3) else (Inl RuntimeError, w3))"
    using in3 by (simp add: Cursor_def)
  have unfold: "create_point_event_table in_routes nm measure_interval out_table w =
      (if nm \<in> set (field_names d)
       then (case populate out_table nm measure_interval (rows d) w3 of
               None \<Rightarrow> None
             | Some (Inl e, w4) \<Rightarrow> Some (Inl e, w4)
             | Some (Inr u, w4) \<Rightarrow> Some (Inr out_table, w4))
       else Some (Inl RuntimeError, w3))"
    by (simp add: create_point_event_table_def and_then_d_def lift_def gf ct a1 a2 c1 c2 ret_def
        split: option.split sum.split prod.split)
  show ?thesis
  proof (cases "nm \<in> set (field_names d)")
    case True
    with unfold out3 in3 r3 r2 show ?thesis by auto
  next
    case False
    with unfold show ?thesis by auto
  qed
qed


text \<open>A run on one route measured from 0 to 100, stepping by 25.\<close>

lemma sample_run:
  "create_point_event_table ''routes'' ''ROUTE_ID'' 25 ''events'' [(''routes'', sample_routes)]
     = Some (Inr ''events'',
         [(''routes'', sample_routes),
          (''events'', \<lparr>dfields = [oid_field, ROUTE_ID_field,
                                    \<lparr>fname = ''Measure'', ftype = ''DOUBLE'', flength = 0\<rparr>],
                        rows = [event_row ''ROUTE_ID'' (Str ''A'') 0,
                                event_row ''ROUTE_ID'' (Str ''A'') 25,
                                event_row ''ROUTE_ID'' (Str ''A'') 50,
                                event_row ''ROUTE_ID'' (Str ''A'') 75]\<rparr>)])"
  by (simp add: create_point_event_table_def and_then_d_def lift_def get_field_def and_then_def
      Describe_def ret_def raise_def CreateTable_def AddField_def Cursor_def field_names_def
      sample_routes_def sample_route_def oid_field_def shape_field_def ROUTE_ID_field_def
      float_M_def M_def attr_def insertRow_def frange.simps advance_def)



section \<open>Stepping by a negative or zero interval\<close>


lemma frange_zero_step:
  assumes "double_round r = r" and "r < stop"
  shows "frange r stop 0 = None"
  using assms by (intro frange_stuck) (simp_all add: advance_def)

lemma populate_abs:
  assumes "measure_interval \<noteq> 0"
  shows "populate out_table nm measure_interval cursor w
           = populate out_table nm \<bar>measure_interval\<bar> cursor w"
proof (induction cursor arbitrary: w)
  case Nil
  then show ?case by simp
next
  case (Cons row cursor)
  have "frange a b measure_interval = frange a b \<bar>measure_interval\<bar>" for a b
    by (rule frange_abs)
  then show ?case using Cons.IH by (simp split: sum.split option.split)
qed

lemma create_point_event_table_abs:
  assumes "measure_interval \<noteq> 0"
  shows "create_point_event_table in_routes nm measure_interval out_table w
           = create_point_event_table in_routes nm \<bar>measure_interval\<bar> out_table w"
proof -
  have "populate out_table nm measure_interval cursor
          = populate out_table nm \<bar>measure_interval\<bar> cursor" for cursor
    using populate_abs [OF assms] by (rule ext)
  then show ?thesis by (simp add: create_point_event_table_def)
qed

lemma and_then_fst_cong:
  assumes "\<And>x w'. fst (f x w') = fst (g x w')"
  shows "fst (and_then m f w) = fst (and_then m g w)"
  using assms by (simp add: and_then_def split: prod.split sum.split)

lemma sections_status:
  "fst (sections out_fc nm distance cursor w) = fst (sections out_fc nm distance' cursor w')"
proof (induction cursor arbitrary: w w')
  case Nil
  then show ?case by simp
next
  case (Cons row cursor)
  then show ?case by (simp split: option.split prod.split val.split)
qed

lemma create_cross_section_status:
  "fst (create_cross_section station nm width out_fc w)
     = fst (create_cross_section station nm width' out_fc w)"
  unfolding create_cross_section_def Let_def
  by (intro and_then_fst_cong sections_status)

section \<open>Cross-sections\<close>

lemma and_then_Inr:
  assumes "and_then m f w = (Inr y, w')"
  obtains x w1 where "m w = (Inr x, w1)" and "f x w1 = (Inr y, w')"
  using assms by (auto simp: and_then_def split: prod.splits sum.splits)

lemma insert_row_set: "set (insert_row nm x ys) = insert x (set ys)"
  by (induction ys) auto

lemma order_by_set: "set (order_by nm rs) = set rs"
  by (induction rs) (simp_all add: order_by_def insert_row_set)

lemma sections_rows:
  "sections out_fc nm distance cursor w = (Inr (), w') \<Longrightarrow>
   map_of w out_fc = Some t \<Longrightarrow>
   \<exists>new. map_of w' = (map_of w)(out_fc \<mapsto> t\<lparr>rows := rows t @ new\<rparr>)
     \<and> list_all2 (\<lambda>row x. \<exists>mid_x mid_y mm b.
           shape row = Point (mid_x, mid_y, mm) \<and> attr row ''LOC_ANGLE'' = Num b
         \<and> x = \<lparr>attrs = [(nm, attr row nm), (''Measure'', attr row ''Measure'')],
                shape = Polyline [cross_section_points mid_x mid_y (radians b) distance]\<rparr>)
         cursor new"
proof (induction cursor arbitrary: w t)
  case Nil
  then have "w' = w" by simp
  with Nil show ?case by (intro exI [of _ "[]"]) (auto simp: fun_eq_iff)
next
  case (Cons row cursor)
  from Cons.prems(1) obtain mid_x mid_y where xy: "SHAPE_XY (shape row) = Some (mid_x, mid_y)"
    by (cases "SHAPE_XY (shape row)") auto
  then obtain mm where pt: "shape row = Point (mid_x, mid_y, mm)"
    by (cases "shape row") (auto elim: SHAPE_XY.elims)
  from Cons.prems(1) xy obtain b where b: "attr row ''LOC_ANGLE'' = Num b"
    by (cases "attr row ''LOC_ANGLE''") auto
  let ?x = "\<lparr>attrs = [(nm, attr row nm), (''Measure'', attr row ''Measure'')],
             shape = Polyline [cross_section_points mid_x mid_y (radians b) distance]\<rparr>"
  have step: "sections out_fc nm distance cursor (insertRow out_fc ?x w) = (Inr (), w')"
    using Cons.prems(1) xy b by simp
  have w1: "map_of (insertRow out_fc ?x w) = (map_of w)(out_fc \<mapsto> t\<lparr>rows := rows t @ [?x]\<rparr>)"
    using Cons.prems(2) by (rule insertRow_map_of)
  then have "map_of (insertRow out_fc ?x w) out_fc = Some (t\<lparr>rows := rows t @ [?x]\<rparr>)"
    by simp
  from Cons.IH [OF step this] obtain new where
    new: "map_of w' = (map_of (insertRow out_fc ?x w))(out_fc \<mapsto>
            (t\<lparr>rows := rows t @ [?x]\<rparr>)\<lparr>rows := rows (t\<lparr>rows := rows t @ [?x]\<rparr>) @ new\<rparr>)"
    and rel: "list_all2 (\<lambda>row x. \<exists>mid_x mid_y mm b.
           shape row = Point (mid_x, mid_y, mm) \<and> attr row ''LOC_ANGLE'' = Num b
         \<and> x = \<lparr>attrs = [(nm, attr row nm), (''Measure'', attr row ''Measure'')],
                shape = Polyline [cross_section_points mid_x mid_y (radians b) distance]\<rparr>)
         cursor new"
    by blast
  show ?case
  proof (intro exI [of _ "?x # new"] conjI)
    show "map_of w' = (map_of w)(out_fc \<mapsto> t\<lparr>rows := rows t @ ?x # new\<rparr>)"
      using new w1 by (auto simp: fun_eq_iff)
  next
    show "list_all2 (\<lambda>row x. \<exists>mid_x mid_y mm b.
           shape row = Point (mid_x, mid_y, mm) \<and> attr row ''LOC_ANGLE'' = Num b
         \<and> x = \<lparr>attrs = [(nm, attr row nm), (''Measure'', attr row ''Measure'')],
                shape = Polyline [cross_section_points mid_x mid_y (radians b) distance]\<rparr>)
         (row # cursor) (?x # new)"
      using rel pt b by simp
  qed
qed

text \<open>
  C4. On a normal return of \<open>create_cross_section\<close>, the output feature class holds one
  row per station row, in cursor order: for the station at \<open>(mid_x, mid_y)\<close> with
  bearing \<open>b\<close> degrees, and \<open>distance = width / 2\<close>, the three-point polyline
  \<open>[from_point, mid_point, to_point]\<close> with
  \<open>from_point = (mid_x + distance * cos (radians b), mid_y + distance * sin (radians b))\<close>
  and \<open>to_point = (mid_x - distance * cos (radians b), mid_y - distance * sin (radians b))\<close>;
  the station itself is the middle vertex. The row carries the station's route identifier
  and measure.
\<close>

theorem cross_section_geometry:
  assumes "create_cross_section station nm width out_fc w = (Inr (), w')"
    and "station \<noteq> out_fc" and "map_of w station = Some d"
  shows "\<exists>t. map_of w' out_fc = Some t
           \<and> set (order_by nm (rows d)) = set (rows d)
           \<and> list_all2 (\<lambda>row x. \<exists>mid_x mid_y mm b.
                 shape row = Point (mid_x, mid_y, mm) \<and> attr row ''LOC_ANGLE'' = Num b
               \<and> x = \<lparr>attrs = [(nm, attr row nm), (''Measure'', attr row ''Measure'')],
                      shape = Polyline
                        [[(mid_x + width / 2 * cos (radians b),
                           mid_y + width / 2 * sin (radians b), None),
                          (mid_x, mid_y, None),
                          (mid_x - width / 2 * cos (radians b),
                           mid_y - width / 2 * sin (radians b), None)]]\<rparr>)
               (order_by nm (rows d)) (rows t)"
proof -
  from assms(1) obtain u1 w1 where
    cf: "CreateFeatureclass out_fc station w = (Inr u1, w1)"
    and rest1: "and_then (get_field station nm) (\<lambda>route_id_field.
       and_then (AddField out_fc nm (ftype route_id_field) (flength route_id_field)) (\<lambda>_.
       and_then (AddField out_fc ''Measure'' ''DOUBLE'' 0) (\<lambda>_.
       let distance = width / 2 in
       and_then (Cursor out_fc [nm, ''Measure'']) (\<lambda>_.
       and_then (Cursor station [nm, ''Measure'', ''LOC_ANGLE'']) (\<lambda>cursor.
       sections out_fc nm distance (order_by nm cursor)))))) w1 = (Inr (), w')"
    unfolding create_cross_section_def by (rule and_then_Inr)
  let ?t0 = "\<lparr>dfields = [oid_field, shape_field], rows = []\<rparr>"
  from cf have w1: "map_of w1 = (map_of w)(out_fc \<mapsto> ?t0)"
    by (auto simp: CreateFeatureclass_def update_conv' split: if_splits)
  from rest1 obtain route_id_field w1' where
    gf: "get_field station nm w1 = (Inr route_id_field, w1')"
    and rest2: "and_then (AddField out_fc nm (ftype route_id_field) (flength route_id_field)) (\<lambda>_.
       and_then (AddField out_fc ''Measure'' ''DOUBLE'' 0) (\<lambda>_.
       let distance = width / 2 in
       and_then (Cursor out_fc [nm, ''Measure'']) (\<lambda>_.
       and_then (Cursor station [nm, ''Measure'', ''LOC_ANGLE'']) (\<lambda>cursor.
       sections out_fc nm distance (order_by nm cursor))))) w1' = (Inr (), w')"
    by (rule and_then_Inr)
  have "map_of w1 station = Some d" using w1 assms(2,3) by simp
  from get_field_find [OF this, of nm] gf have "w1' = w1"
    by (auto split: option.splits)
  from rest2 [unfolded this] obtain u2 w2 where
    a1: "AddField out_fc nm (ftype route_id_field) (flength route_id_field) w1 = (Inr u2, w2)"
    and rest3: "and_then (AddField out_fc ''Measure'' ''DOUBLE'' 0) (\<lambda>_.
       let distance = width / 2 in
       and_then (Cursor out_fc [nm, ''Measure'']) (\<lambda>_.
       and_then (Cursor station [nm, ''Measure'', ''LOC_ANGLE'']) (\<lambda>cursor.
       sections out_fc nm distance (order_by nm cursor)))) w2 = (Inr (), w')"
    by (rule and_then_Inr)
  have "map_of w1 out_fc = Some ?t0" using w1 by simp
  from AddField_returns [OF this, of nm "ftype route_id_field" "flength route_id_field"] a1
  obtain t2 where w2: "map_of w2 = (map_of w1)(out_fc \<mapsto> t2)" and r2: "rows t2 = []"
    by auto
  from rest3 obtain u3 w3 where
    a2: "AddField out_fc ''Measure'' ''DOUBLE'' 0 w2 = (Inr u3, w3)"
    and rest4: "(let distance = width / 2 in
       and_then (Cursor out_fc [nm, ''Measure'']) (\<lambda>_.
       and_then (Cursor station [nm, ''Measure'', ''LOC_ANGLE'']) (\<lambda>cursor.
       sections out_fc nm distance (order_by nm cursor)))) w3 = (Inr (), w')"
    by (rule and_then_Inr)
  have "map_of w2 out_fc = Some t2" using w2 by simp
  from AddField_returns [OF this, of "''Measure''" "''DOUBLE''" 0] a2
  obtain t3 where w3: "map_of w3 = (map_of w2)(out_fc \<mapsto> t3)" and r3: "rows t3 = []"
    using r2 by auto
  from rest4 obtain u4 w4 where
    c1: "Cursor out_fc [nm, ''Measure''] w3 = (Inr u4, w4)"
    and rest5: "and_then (Cursor station [nm, ''Measure'', ''LOC_ANGLE'']) (\<lambda>cursor.
       sections out_fc nm (width / 2) (order_by nm cursor)) w4 = (Inr (), w')"
    unfolding Let_def by (rule and_then_Inr)
  from c1 have "w4 = w3" by (auto simp: Cursor_def split: option.splits if_splits)
  from rest5 [unfolded this] obtain cursor w5 where
    c2: "Cursor station [nm, ''Measure'', ''LOC_ANGLE''] w3 = (Inr cursor, w5)"
    and loop: "sections out_fc nm (width / 2) (order_by nm cursor) w5 = (Inr (), w')"
    by (rule and_then_Inr)
  have "map_of w3 station = Some d" using w3 w2 w1 assms(2,3) by simp
  with c2 have cur: "cursor = rows d" and "w5 = w3"
    by (auto simp: Cursor_def split: if_splits)
  have out3: "map_of w3 out_fc = Some t3" using w3 by simp
  from sections_rows [OF loop [unfolded \<open>w5 = w3\<close> cur] out3] obtain new where
    w': "map_of w' = (map_of w3)(out_fc \<mapsto> t3\<lparr>rows := rows t3 @ new\<rparr>)"
    and rel: "list_all2 (\<lambda>row x. \<exists>mid_x mid_y mm b.
           shape row = Point (mid_x, mid_y, mm) \<and> attr row ''LOC_ANGLE'' = Num b
         \<and> x = \<lparr>attrs = [(nm, attr row nm), (''Measure'', attr row ''Measure'')],
                shape = Polyline [cross_section_points mid_x mid_y (radians b) (width / 2)]\<rparr>)
         (order_by nm (rows d)) new"
    by blast
  have "map_of w' out_fc = Some (t3\<lparr>rows := new\<rparr>)" using w' r3 by simp
  moreover have "rows (t3\<lparr>rows := new\<rparr>) = new" by simp
  ultimately show ?thesis
    using rel order_by_set [of nm "rows d"]
    by (auto simp: cross_section_points_def Let_def)
qed

text \<open>One station at \<open>(50, 0)\<close> with bearing 90 degrees and width 10.\<close>

lemma sample_sections:
  "create_cross_section ''stations'' ''ROUTE_ID'' 10 ''sections'' [(''stations'', sample_stations)]
     = (Inr (),
        [(''stations'', sample_stations),
         (''sections'',
          \<lparr>dfields = [oid_field, shape_field, ROUTE_ID_field,
                      \<lparr>fname = ''Measure'', ftype = ''DOUBLE'', flength = 0\<rparr>],
           rows = [\<lparr>attrs = [(''ROUTE_ID'', Str ''A''), (''Measure'', Num 50)],
                    shape = Polyline [[(50, 5, None), (50, 0, None), (50, - 5, None)]]\<rparr>]\<rparr>)])"
  by (simp add: create_cross_section_def and_then_def get_field_def CreateFeatureclass_def
      Exists_def Describe_def ret_def raise_def AddField_def Cursor_def field_names_def
      sample_stations_def sample_station_def oid_field_def shape_field_def ROUTE_ID_field_def
      attr_def insertRow_def order_by_def cross_section_points_def radians_def Let_def)

theorem cross_section_geometry_witness:
  "create_cross_section ''stations'' ''ROUTE_ID'' 10 ''sections'' [(''stations'', sample_stations)]
     = (Inr (),
        [(''stations'', sample_stations),
         (''sections'',
          \<lparr>dfields = [oid_field, shape_field, ROUTE_ID_field,
                      \<lparr>fname = ''Measure'', ftype = ''DOUBLE'', flength = 0\<rparr>],
           rows = [\<lparr>attrs = [(''ROUTE_ID'', Str ''A''), (''Measure'', Num 50)],
                    shape = Polyline [[(50, 5, None), (50, 0, None), (50, - 5, None)]]\<rparr>]\<rparr>)])
   \<and> ''stations'' \<noteq> ''sections''
   \<and> map_of [(''stations'', sample_stations)] ''stations'' = Some sample_stations
   \<and> (\<exists>t. map_of
         [(''stations'', sample_stations),
          (''sections'',
           \<lparr>dfields = [oid_field, shape_field, ROUTE_ID_field,
                       \<lparr>fname = ''Measure'', ftype = ''DOUBLE'', flength = 0\<rparr>],
            rows = [\<lparr>attrs = [(''ROUTE_ID'', Str ''A''), (''Measure'', Num 50)],
                     shape = Polyline [[(50, 5, None), (50, 0, None), (50, - 5, None)]]\<rparr>]\<rparr>)]
         ''sections'' = Some t
        \<and> length (rows t) = length (order_by ''ROUTE_ID'' (rows sample_stations)))"
proof -
  note h1 = sample_sections
  have h2: "''stations'' \<noteq> ''sections''" by simp
  have h3: "map_of [(''stations'', sample_stations)] ''stations'' = Some sample_stations" by simp
  from cross_section_geometry [OF h1 h2 h3] show ?thesis
    using h1 h2 h3 by (auto dest: list_all2_lengthD)
qed

section \<open>Intervals and widths that are not positive\<close>

lemma create_point_event_table_zero:
  assumes "in_routes \<noteq> out_table" and "map_of w in_routes = Some d"
    and "nm \<in> set (field_names d)" and "rows d = row # cursor"
    and "float_M (firstPoint (shape row)) = Inr first_measure"
    and "float_M (lastPoint (shape row)) = Inr last_measure"
    and "first_measure < last_measure"
  shows "create_point_event_table in_routes nm 0 out_table w = None"
proof -
  from assms(3) obtain f where "f \<in> set (dfields d)" and "fname f = nm"
    by (auto simp: field_names_def)
  then have "\<exists>f \<in> set (dfields d). sublist (fname f) nm" by auto
  with create_point_event_table_cases [OF assms(1,2), of nm 0] assms(3)
  obtain w3 where "create_point_event_table in_routes nm 0 out_table w
             = (case populate out_table nm 0 (rows d) w3 of
                  None \<Rightarrow> None
                | Some (Inl e, w4) \<Rightarrow> Some (Inl e, w4)
                | Some (Inr u, w4) \<Rightarrow> Some (Inr out_table, w4))"
    by blast
  moreover have "populate out_table nm 0 (rows d) w3 = None"
    using assms(4-7) frange_zero_step [OF float_M_float [OF assms(5)] assms(7)] by simp
  ultimately show ?thesis by simp
qed

text \<open>
  C6, as the code has it. Neither the interval nor the width is validated. A negative
  interval is stepped by its absolute value: the run is the run of the positive interval
  of the same size. With an interval of zero the stepping loop never ends on a route
  whose first measure is less than its last. Whether \<open>create_cross_section\<close> raises
  does not depend on the width; the cross-sections are built at \<open>distance = width / 2\<close>
  whatever its sign.
\<close>

theorem interval_and_width_not_validated:
  "(measure_interval < 0 \<longrightarrow>
      create_point_event_table in_routes nm measure_interval out_table w
        = create_point_event_table in_routes nm \<bar>measure_interval\<bar> out_table w)
   \<and> (in_routes \<noteq> out_table \<and> map_of w in_routes = Some d \<and> nm \<in> set (field_names d)
        \<and> rows d = row # cursor
        \<and> float_M (firstPoint (shape row)) = Inr first_measure
        \<and> float_M (lastPoint (shape row)) = Inr last_measure
        \<and> first_measure < last_measure \<longrightarrow>
      create_point_event_table in_routes nm 0 out_table w = None)
   \<and> fst (create_cross_section station nm width out_fc w)
        = fst (create_cross_section station nm width' out_fc w)"
  using create_point_event_table_abs [of measure_interval in_routes nm out_table w]
    create_point_event_table_zero [of in_routes out_table w d nm row cursor
      first_measure last_measure]
    create_cross_section_status [of station nm width out_fc w width']
  by simp

theorem interval_and_width_not_validated_witness:
  "(- 25 :: real) < 0
   \<and> create_point_event_table ''routes'' ''ROUTE_ID'' (- 25) ''events'' [(''routes'', sample_routes)]
       = create_point_event_table ''routes'' ''ROUTE_ID'' 25 ''events'' [(''routes'', sample_routes)]
   \<and> ''routes'' \<noteq> ''events''
   \<and> map_of [(''routes'', sample_routes)] ''routes'' = Some sample_routes
   \<and> ''ROUTE_ID'' \<in> set (field_names sample_routes)
   \<and> rows sample_routes = sample_route # []
   \<and> float_M (firstPoint (shape sample_route)) = Inr 0
   \<and> float_M (lastPoint (shape sample_route)) = Inr 100
   \<and> (0 :: real) < 100
   \<and> create_point_event_table ''routes'' ''ROUTE_ID'' 0 ''events'' [(''routes'', sample_routes)]
       = None"
  using interval_and_width_not_validated [of "- 25" "''routes''" "''ROUTE_ID''" "''events''"
      "[(''routes'', sample_routes)]" sample_routes sample_route "[]" 0 100]
  by (simp add: sample_routes_def sample_route_def field_names_def ROUTE_ID_field_def
      oid_field_def shape_field_def float_M_def M_def)

text \<open>
  C6, as the spec states it, fails: with interval \<open>- 25\<close> the event table is created and
  filled with the measures 0, 25, 50, 75, and with width \<open>- 10\<close> the cross-section is
  written (its end points swapped); no error is raised.
\<close>

theorem interval_and_width_counterexample:
  "create_point_event_table ''routes'' ''ROUTE_ID'' (- 25) ''events'' [(''routes'', sample_routes)]
     = Some (Inr ''events'',
         [(''routes'', sample_routes),
          (''events'', \<lparr>dfields = [oid_field, ROUTE_ID_field,
                                    \<lparr>fname = ''Measure'', ftype = ''DOUBLE'', flength = 0\<rparr>],
                        rows = [event_row ''ROUTE_ID'' (Str ''A'') 0,
                                event_row ''ROUTE_ID'' (Str ''A'') 25,
                                event_row ''ROUTE_ID'' (Str ''A'') 50,
                                event_row ''ROUTE_ID'' (Str ''A'') 75]\<rparr>)])
   \<and> create_cross_section ''stations'' ''ROUTE_ID'' (- 10) ''sections''
        [(''stations'', sample_stations)]
     = (Inr (),
        [(''stations'', sample_stations),
         (''sections'',
          \<lparr>dfields = [oid_field, shape_field, ROUTE_ID_field,
                      \<lparr>fname = ''Measure'', ftype = ''DOUBLE'', flength = 0\<rparr>],
           rows = [\<lparr>attrs = [(''ROUTE_ID'', Str ''A''), (''Measure'', Num 50)],
                    shape = Polyline [[(50, - 5, None), (50, 0, None), (50, 5, None)]]\<rparr>]\<rparr>)])"
  by (simp add: create_point_event_table_def and_then_d_def lift_def get_field_def and_then_def
      Describe_def ret_def raise_def CreateTable_def AddField_def Cursor_def field_names_def
      sample_routes_def sample_route_def oid_field_def shape_field_def ROUTE_ID_field_def
      float_M_def M_def attr_def insertRow_def frange.simps advance_def
      create_cross_section_def CreateFeatureclass_def Exists_def
      sample_stations_def sample_station_def order_by_def cross_section_points_def
      radians_def Let_def)

section \<open>Routes by length\<close>

lemma update_measures_attrs:
  "attr (update_measures row) ''FromMeasure'' = Num 0"
  "attr (update_measures row) ''ToMeasure'' = length_token (shape row)"
  "shape (update_measures row) = shape row"
  by (simp_all add: update_measures_def set_attr_def attr_def update_conv')

lemma straight_line_length:
  "length_token (Polyline [[(0, 0, ma), (100, 0, mb)]]) = Num 100"
proof -
  have "sqrt ((100::real)\<^sup>2) = 100" by (simp only: real_sqrt_abs)
  then show ?thesis by (simp add: length_token_def dist2d_def)
qed

lemma create_route_by_length_cases:
  assumes "map_of w in_features = Some d"
  defines "the_line \<equiv> CreateUniqueName ''theLine'' ''in_memory'' w"
  shows "\<exists>t. rows t = map update_measures (rows d)
           \<and> set (field_names t) = set (field_names d) \<union> {''FromMeasure'', ''ToMeasure''}
           \<and> (if route_id_field \<in> set (field_names t)
               then \<exists>w'. create_route_by_length eng in_features route_id_field
                            route_feature_class w = (Inr route_feature_class, w')
                      \<and> map_of w' = ((map_of w)(the_line \<mapsto> t,
                            route_feature_class \<mapsto> lr_routes eng t route_id_field))
                            (the_line := None)
               else \<exists>w'. create_route_by_length eng in_features route_id_field
                            route_feature_class w = (Inl ExecuteError, w')
                      \<and> map_of w' = (map_of w)(the_line \<mapsto> t))"
proof -
  let ?w1 = "AList.update the_line d w"
  have cp: "CopyFeatures in_features the_line w = (Inr (), ?w1)"
    using assms(1) by (simp add: CopyFeatures_def)
  have w1: "map_of ?w1 = (map_of w)(the_line \<mapsto> d)" by (simp add: update_conv')
  then have "map_of ?w1 the_line = Some d" by simp
  from AddField_returns [OF this, of "''FromMeasure''" "''DOUBLE''" 0]
  obtain w2 t2 where a1: "AddField the_line ''FromMeasure'' ''DOUBLE'' 0 ?w1 = (Inr (), w2)"
    and w2: "map_of w2 = (map_of ?w1)(the_line \<mapsto> t2)" and r2: "rows t2 = rows d"
    and f2: "set (field_names t2) = insert ''FromMeasure'' (set (field_names d))"
    by auto
  from w2 have "map_of w2 the_line = Some t2" by simp
  from AddField_returns [OF this, of "''ToMeasure''" "''DOUBLE''" 0]
  obtain w3 t3 where a2: "AddField the_line ''ToMeasure'' ''DOUBLE'' 0 w2 = (Inr (), w3)"
    and w3: "map_of w3 = (map_of w2)(the_line \<mapsto> t3)" and r3: "rows t3 = rows t2"
    and f3: "set (field_names t3) = insert ''ToMeasure'' (set (field_names t2))"
    by auto
  have l3: "map_of w3 the_line = Some t3" using w3 by simp
  have c: "Cursor the_line [''FromMeasure'', ''ToMeasure''] w3 = (Inr (rows t3), w3)"
    using l3 f3 f2 by (simp add: Cursor_def)
  let ?t = "t3\<lparr>rows := map update_measures (rows t3)\<rparr>"
  let ?w4 = "AList.update the_line ?t w3"
  have u: "updateRows the_line update_measures w3 = (Inr (), ?w4)"
    using l3 by (simp add: updateRows_def)
  have w4: "map_of ?w4 = (map_of w)(the_line \<mapsto> ?t)"
    using w3 w2 w1 by (simp add: update_conv')
  have ft: "set (field_names ?t) = set (field_names d) \<union> {''FromMeasure'', ''ToMeasure''}"
    using f3 f2 by (auto simp: field_names_def)
  let ?w5 = "AList.update route_feature_class (lr_routes eng ?t route_id_field) ?w4"
  have cr: "CreateRoutes eng the_line route_id_field route_feature_class ?w4 =
      (if route_id_field \<in> set (field_names ?t) then (Inr (), ?w5) else (Inl ExecuteError, ?w4))"
    using ft by (simp add: CreateRoutes_def update_conv')
  have w5: "map_of ?w5 = (map_of w)(the_line \<mapsto> ?t,
              route_feature_class \<mapsto> lr_routes eng ?t route_id_field)"
    using w4 by (simp add: update_conv')
  have "Exists ?w5 the_line" unfolding Exists_def w5 by simp
  then have dl: "Delete the_line ?w5 = (Inr (), AList.delete the_line ?w5)"
    by (simp add: Delete_def)
  have w6: "map_of (AList.delete the_line ?w5) = ((map_of w)(the_line \<mapsto> ?t,
              route_feature_class \<mapsto> lr_routes eng ?t route_id_field))(the_line := None)"
    using w5 by (simp add: delete_conv')
  have run: "create_route_by_length eng in_features route_id_field route_feature_class w =
      (if route_id_field \<in> set (field_names ?t)
       then (Inr route_feature_class, AList.delete the_line ?w5)
       else (Inl ExecuteError, ?w4))"
    unfolding create_route_by_length_def the_line_def [symmetric] Let_def
    by (simp add: and_then_def cp a1 a2 c u cr dl ret_def)
  show ?thesis
  proof (intro exI [of _ ?t] conjI)
    show "rows ?t = map update_measures (rows d)" using r3 r2 by simp
    show "set (field_names ?t) = set (field_names d) \<union> {''FromMeasure'', ''ToMeasure''}"
      by (rule ft)
    show "if route_id_field \<in> set (field_names ?t)
          then \<exists>w'. create_route_by_length eng in_features route_id_field
                       route_feature_class w = (Inr route_feature_class, w')
                 \<and> map_of w' = ((map_of w)(the_line \<mapsto> ?t,
                       route_feature_class \<mapsto> lr_routes eng ?t route_id_field))
                       (the_line := None)
          else \<exists>w'. create_route_by_length eng in_features route_id_field
                       route_feature_class w = (Inl ExecuteError, w')
                 \<and> map_of w' = (map_of w)(the_line \<mapsto> ?t)"
    proof (cases "route_id_field \<in> set (field_names ?t)")
      case True
      with run w6 show ?thesis by simp
    next
      case False
      with run w4 show ?thesis by simp
    qed
  qed
qed

lemma create_route_by_length_no_input:
  assumes "map_of w in_features = None"
  shows "create_route_by_length eng in_features route_id_field route_feature_class w
           = (Inl ExecuteError, w)"
  using assms by (simp add: create_route_by_length_def Let_def and_then_def CopyFeatures_def)

lemma sample_the_line:
  "CreateUniqueName ''theLine'' ''in_memory'' [(''lines'', sample_lines)] = ''in_memory/theLine''"
  by (simp add: CreateUniqueName_def Exists_def)

lemma sample_lines_fields:
  "set (field_names sample_lines) = {''OBJECTID'', ''Shape'', ''ROUTE_ID''}"
  by (auto simp: sample_lines_def field_names_def oid_field_def shape_field_def ROUTE_ID_field_def)

lemma create_route_by_length_status:
  assumes "map_of w in_features = Some d"
  shows "fst (create_route_by_length eng in_features route_id_field route_feature_class w)
           = (if route_id_field \<in> set (field_names d) \<union> {''FromMeasure'', ''ToMeasure''}
              then Inr route_feature_class else Inl ExecuteError)"
proof -
  from create_route_by_length_cases [OF assms, of route_id_field eng route_feature_class]
  obtain t where f: "set (field_names t) = set (field_names d) \<union> {''FromMeasure'', ''ToMeasure''}"
    and run: "if route_id_field \<in> set (field_names t)
       then \<exists>w'. create_route_by_length eng in_features route_id_field
                    route_feature_class w = (Inr route_feature_class, w')
              \<and> map_of w' = ((map_of w)(CreateUniqueName ''theLine'' ''in_memory'' w \<mapsto> t,
                    route_feature_class \<mapsto> lr_routes eng t route_id_field))
                    (CreateUniqueName ''theLine'' ''in_memory'' w := None)
       else \<exists>w'. create_route_by_length eng in_features route_id_field
                    route_feature_class w = (Inl ExecuteError, w')
              \<and> map_of w' = (map_of w)(CreateUniqueName ''theLine'' ''in_memory'' w \<mapsto> t)"
    by blast
  show ?thesis
  proof (cases "route_id_field \<in> set (field_names t)")
    case True
    with run obtain w' where "create_route_by_length eng in_features route_id_field
        route_feature_class w = (Inr route_feature_class, w')" by auto
    with True f show ?thesis by simp
  next
    case False
    with run obtain w' where "create_route_by_length eng in_features route_id_field
        route_feature_class w = (Inl ExecuteError, w')" by auto
    with False f show ?thesis by simp
  qed
qed

lemma sample_lines_status:
  "fst (create_route_by_length sample_engine ''lines'' ''ROUTE_ID'' ''routes''
          [(''lines'', sample_lines)]) = Inr ''routes''"
proof -
  have h: "map_of [(''lines'', sample_lines)] ''lines'' = Some sample_lines" by simp
  show ?thesis
    unfolding create_route_by_length_status [OF h] by (simp add: sample_lines_fields)
qed

text \<open>
  C3. When \<open>create_route_by_length\<close> returns normally, the route feature class is what
  the engine builds, with measure source \<^verbatim>\<open>TWO_FIELDS\<close>, from the lines of the input
  each carrying \<open>FromMeasure = 0\<close> and \<open>ToMeasure =\<close> the planar length of its
  geometry (\<^verbatim>\<open>SHAPE@LENGTH\<close>), whatever attributes the line had before: a value already
  stored under \<open>ToMeasure\<close> is overwritten. The straight line from \<open>(0, 0)\<close> to
  \<open>(100, 0)\<close> gets the measures 0 and 100. (The route feature class is not the scratch
  copy's own path.)
\<close>

theorem route_measures_from_length:
  assumes "fst (create_route_by_length eng in_features route_id_field route_feature_class w)
             = Inr x"
    and "map_of w in_features = Some d"
    and "route_feature_class \<noteq> CreateUniqueName ''theLine'' ''in_memory'' w"
  shows "(\<exists>t. map_of (snd (create_route_by_length eng in_features route_id_field
                            route_feature_class w)) route_feature_class
                = Some (lr_routes eng t route_id_field)
            \<and> list_all2 (\<lambda>line r. shape r = shape line
                  \<and> attr r ''FromMeasure'' = Num 0
                  \<and> attr r ''ToMeasure'' = length_token (shape line)) (rows d) (rows t))
       \<and> length_token (Polyline [[(0, 0, None), (100, 0, None)]]) = Num 100"
proof -
  from create_route_by_length_cases [OF assms(2), of route_id_field eng route_feature_class]
  obtain t where rows: "rows t = map update_measures (rows d)"
    and run: "if route_id_field \<in> set (field_names t)
       then \<exists>w'. create_route_by_length eng in_features route_id_field
                    route_feature_class w = (Inr route_feature_class, w')
              \<and> map_of w' = ((map_of w)(CreateUniqueName ''theLine'' ''in_memory'' w \<mapsto> t,
                    route_feature_class \<mapsto> lr_routes eng t route_id_field))
                    (CreateUniqueName ''theLine'' ''in_memory'' w := None)
       else \<exists>w'. create_route_by_length eng in_features route_id_field
                    route_feature_class w = (Inl ExecuteError, w')
              \<and> map_of w' = (map_of w)(CreateUniqueName ''theLine'' ''in_memory'' w \<mapsto> t)"
    by blast
  have "route_id_field \<in> set (field_names t)"
  proof (rule ccontr)
    assume "route_id_field \<notin> set (field_names t)"
    with run assms(1) show False by auto
  qed
  with run obtain w' where
    r: "create_route_by_length eng in_features route_id_field route_feature_class w
          = (Inr route_feature_class, w')"
    and w': "map_of w' = ((map_of w)(CreateUniqueName ''theLine'' ''in_memory'' w \<mapsto> t,
                route_feature_class \<mapsto> lr_routes eng t route_id_field))
                (CreateUniqueName ''theLine'' ''in_memory'' w := None)"
    by auto
  have out: "map_of w' route_feature_class = Some (lr_routes eng t route_id_field)"
    using w' assms(3) by simp
  have rel: "list_all2 (\<lambda>line r. shape r = shape line
                  \<and> attr r ''FromMeasure'' = Num 0
                  \<and> attr r ''ToMeasure'' = length_token (shape line)) (rows d) (rows t)"
    unfolding rows by (simp add: list_all2_map2 update_measures_attrs list_all2_same)
  show ?thesis using out rel r straight_line_length by auto
qed

theorem route_measures_from_length_witness:
  "fst (create_route_by_length sample_engine ''lines'' ''ROUTE_ID'' ''routes''
          [(''lines'', sample_lines)]) = Inr ''routes''
   \<and> map_of [(''lines'', sample_lines)] ''lines'' = Some sample_lines
   \<and> ''routes'' \<noteq> CreateUniqueName ''theLine'' ''in_memory'' [(''lines'', sample_lines)]
   \<and> (\<exists>t. map_of (snd (create_route_by_length sample_engine ''lines'' ''ROUTE_ID'' ''routes''
                          [(''lines'', sample_lines)])) ''routes''
              = Some (lr_routes sample_engine t ''ROUTE_ID'')
          \<and> length (rows t) = length (rows sample_lines))"
proof -
  have h2: "map_of [(''lines'', sample_lines)] ''lines'' = Some sample_lines" by simp
  have h3: "''routes'' \<noteq> CreateUniqueName ''theLine'' ''in_memory'' [(''lines'', sample_lines)]"
    by (simp add: sample_the_line)
  have h1: "fst (create_route_by_length sample_engine ''lines'' ''ROUTE_ID'' ''routes''
          [(''lines'', sample_lines)]) = Inr ''routes''"
    by (rule sample_lines_status)
  from route_measures_from_length [OF h1 h2 h3] obtain t where
    "map_of (snd (create_route_by_length sample_engine ''lines'' ''ROUTE_ID'' ''routes''
                          [(''lines'', sample_lines)])) ''routes''
              = Some (lr_routes sample_engine t ''ROUTE_ID'')"
    and "list_all2 (\<lambda>line r. shape r = shape line
                  \<and> attr r ''FromMeasure'' = Num 0
                  \<and> attr r ''ToMeasure'' = length_token (shape line)) (rows sample_lines) (rows t)"
    by blast
  then have "\<exists>t. map_of (snd (create_route_by_length sample_engine ''lines'' ''ROUTE_ID'' ''routes''
                          [(''lines'', sample_lines)])) ''routes''
              = Some (lr_routes sample_engine t ''ROUTE_ID'')
          \<and> length (rows t) = length (rows sample_lines)"
    by (intro exI [of _ t]) (simp add: list_all2_lengthD)
  with h1 h2 h3 show ?thesis by blast
qed

text \<open>
  C7, as the code has it. There is no check of the number of parts: on an input dataset
  that exists, whether \<open>create_route_by_length\<close> raises depends on the route identifier
  field only, never on a geometry; a multi-part line is given \<open>FromMeasure = 0\<close> and
  \<open>ToMeasure =\<close> the sum of the lengths of its parts.
\<close>

theorem multipart_not_rejected:
  assumes "map_of w in_features = Some d"
  shows "fst (create_route_by_length eng in_features route_id_field route_feature_class w)
           = (if route_id_field \<in> set (field_names d) \<union> {''FromMeasure'', ''ToMeasure''}
              then Inr route_feature_class else Inl ExecuteError)
       \<and> attr (update_measures \<lparr>attrs = a, shape = Polyline ps\<rparr>) ''FromMeasure'' = Num 0
       \<and> attr (update_measures \<lparr>attrs = a, shape = Polyline ps\<rparr>) ''ToMeasure''
           = Num (sum_list (map part_length ps))"
  using create_route_by_length_status [OF assms, of eng route_id_field route_feature_class]
  by (simp add: update_measures_attrs length_token_def)

theorem multipart_not_rejected_witness:
  "map_of [(''lines'', sample_lines)] ''lines'' = Some sample_lines
   \<and> fst (create_route_by_length sample_engine ''lines'' ''ROUTE_ID'' ''routes''
          [(''lines'', sample_lines)]) = Inr ''routes''
   \<and> attr (update_measures multipart_line) ''ToMeasure'' = Num 20"
proof -
  have h: "map_of [(''lines'', sample_lines)] ''lines'' = Some sample_lines" by simp
  have s: "sqrt ((10::real)\<^sup>2) = 10" by (simp only: real_sqrt_abs)
  from multipart_not_rejected [OF h, of sample_engine "''ROUTE_ID''" "''routes''"
      "[(''ROUTE_ID'', Str ''B'')]" "[[(0, 0, None), (10, 0, None)], [(20, 0, None), (30, 0, None)]]"]
  show ?thesis
    using h s by (simp add: sample_lines_fields multipart_line_def dist2d_def)
qed

text \<open>
  C7, as the spec states it, fails: the input holds a line of two parts and the run
  returns the route feature class; nothing is raised.
\<close>

theorem multipart_counterexample:
  "multipart_line \<in> set (rows sample_lines)
   \<and> shape multipart_line
       = Polyline [[(0, 0, None), (10, 0, None)], [(20, 0, None), (30, 0, None)]]
   \<and> fst (create_route_by_length sample_engine ''lines'' ''ROUTE_ID'' ''routes''
          [(''lines'', sample_lines)]) = Inr ''routes''"
proof -
  show ?thesis
    using sample_lines_status by (simp add: sample_lines_def multipart_line_def)
qed

lemma create_route_by_length_line_copy:
  assumes "map_of w in_features = Some d"
  shows "Exists (snd (create_route_by_length eng in_features route_id_field
                        route_feature_class w))
           (CreateUniqueName ''theLine'' ''in_memory'' w)
         = (route_id_field \<notin> set (field_names d) \<union> {''FromMeasure'', ''ToMeasure''})"
proof -
  from create_route_by_length_cases [OF assms, of route_id_field eng route_feature_class]
  obtain t where f: "set (field_names t) = set (field_names d) \<union> {''FromMeasure'', ''ToMeasure''}"
    and run: "if route_id_field \<in> set (field_names t)
       then \<exists>w'. create_route_by_length eng in_features route_id_field
                    route_feature_class w = (Inr route_feature_class, w')
              \<and> map_of w' = ((map_of w)(CreateUniqueName ''theLine'' ''in_memory'' w \<mapsto> t,
                    route_feature_class \<mapsto> lr_routes eng t route_id_field))
                    (CreateUniqueName ''theLine'' ''in_memory'' w := None)
       else \<exists>w'. create_route_by_length eng in_features route_id_field
                    route_feature_class w = (Inl ExecuteError, w')
              \<and> map_of w' = (map_of w)(CreateUniqueName ''theLine'' ''in_memory'' w \<mapsto> t)"
    by blast
  show ?thesis
  proof (cases "route_id_field \<in> set (field_names t)")
    case True
    with run obtain w' where "create_route_by_length eng in_features route_id_field
        route_feature_class w = (Inr route_feature_class, w')"
      and "map_of w' (CreateUniqueName ''theLine'' ''in_memory'' w) = None" by auto
    with True f show ?thesis by (simp add: Exists_def)
  next
    case False
    with run obtain w' where "create_route_by_length eng in_features route_id_field
        route_feature_class w = (Inl ExecuteError, w')"
      and "map_of w' (CreateUniqueName ''theLine'' ''in_memory'' w) = Some t" by auto
    with False f show ?thesis by (simp add: Exists_def)
  qed
qed

text \<open>
  C9, as the code has it. \<open>create_route_by_length\<close> deletes its in-memory copy of the
  lines as its last step: after a normal return the copy is gone. Nothing is cleaned up
  on the way out by an error: when \<^verbatim>\<open>CreateRoutes\<close> raises because the route identifier
  field does not exist, the copy stays in the workspace.
\<close>

theorem line_copy_deleted_on_return:
  "(fst (create_route_by_length eng in_features route_id_field route_feature_class w) = Inr x
      \<longrightarrow> \<not> Exists (snd (create_route_by_length eng in_features route_id_field
                            route_feature_class w))
               (CreateUniqueName ''theLine'' ''in_memory'' w))
   \<and> (map_of w in_features = Some d
        \<and> route_id_field \<notin> set (field_names d) \<union> {''FromMeasure'', ''ToMeasure''}
      \<longrightarrow> fst (create_route_by_length eng in_features route_id_field route_feature_class w)
            = Inl ExecuteError
          \<and> Exists (snd (create_route_by_length eng in_features route_id_field
                           route_feature_class w))
              (CreateUniqueName ''theLine'' ''in_memory'' w))"
proof (intro conjI impI)
  assume ok: "fst (create_route_by_length eng in_features route_id_field route_feature_class w)
                = Inr x"
  show "\<not> Exists (snd (create_route_by_length eng in_features route_id_field
                            route_feature_class w))
               (CreateUniqueName ''theLine'' ''in_memory'' w)"
  proof (cases "map_of w in_features")
    case None
    from create_route_by_length_no_input [OF this, of eng route_id_field route_feature_class] ok
    show ?thesis by simp
  next
    case (Some d')
    from create_route_by_length_status [OF Some, of eng route_id_field route_feature_class] ok
    have "route_id_field \<in> set (field_names d') \<union> {''FromMeasure'', ''ToMeasure''}"
      by (simp split: if_splits)
    then show ?thesis
      unfolding create_route_by_length_line_copy [OF Some] by simp
  qed
next
  assume a: "map_of w in_features = Some d
        \<and> route_id_field \<notin> set (field_names d) \<union> {''FromMeasure'', ''ToMeasure''}"
  then show "fst (create_route_by_length eng in_features route_id_field route_feature_class w)
            = Inl ExecuteError"
    using create_route_by_length_status [of w in_features d eng route_id_field route_feature_class]
    by simp
  from a show "Exists (snd (create_route_by_length eng in_features route_id_field
                           route_feature_class w))
              (CreateUniqueName ''theLine'' ''in_memory'' w)"
    using create_route_by_length_line_copy [of w in_features d eng route_id_field
        route_feature_class]
    by simp
qed

theorem line_copy_deleted_on_return_witness:
  "fst (create_route_by_length sample_engine ''lines'' ''ROUTE_ID'' ''routes''
          [(''lines'', sample_lines)]) = Inr ''routes''
   \<and> \<not> Exists (snd (create_route_by_length sample_engine ''lines'' ''ROUTE_ID'' ''routes''
                       [(''lines'', sample_lines)])) ''in_memory/theLine''
   \<and> map_of [(''lines'', sample_lines)] ''lines'' = Some sample_lines
   \<and> ''NAME'' \<notin> set (field_names sample_lines) \<union> {''FromMeasure'', ''ToMeasure''}
   \<and> fst (create_route_by_length sample_engine ''lines'' ''NAME'' ''routes''
          [(''lines'', sample_lines)]) = Inl ExecuteError"
  using line_copy_deleted_on_return [of sample_engine "''lines''" "''ROUTE_ID''" "''routes''"
      "[(''lines'', sample_lines)]" "''routes''" sample_lines]
    line_copy_deleted_on_return [of sample_engine "''lines''" "''NAME''" "''routes''"
      "[(''lines'', sample_lines)]" "''routes''" sample_lines]
    sample_lines_status
  by (simp add: sample_the_line sample_lines_fields)

text \<open>
  C9, as the spec states it, fails: a run that ends in an error leaves the in-memory copy
  \<open>in_memory/theLine\<close>, which was not there before, behind.
\<close>

theorem scratch_cleanup_counterexample:
  "\<not> Exists [(''lines'', sample_lines)] ''in_memory/theLine''
   \<and> fst (create_route_by_length sample_engine ''lines'' ''NAME'' ''routes''
          [(''lines'', sample_lines)]) = Inl ExecuteError
   \<and> Exists (snd (create_route_by_length sample_engine ''lines'' ''NAME'' ''routes''
                   [(''lines'', sample_lines)])) ''in_memory/theLine''"
proof -
  have h: "map_of [(''lines'', sample_lines)] ''lines'' = Some sample_lines" by simp
  show ?thesis
    using create_route_by_length_status [OF h, of sample_engine "''NAME''" "''routes''"]
      create_route_by_length_line_copy [OF h, of sample_engine "''NAME''" "''routes''"]
    by (simp add: sample_the_line sample_lines_fields Exists_def)
qed

section \<open>An unknown route identifier field\<close>

text \<open>
  C8, as the code has it. When no field name of the input dataset is a substring of the
  requested route identifier field name, \<open>create_point_event_table\<close> raises
  \<open>IndexError\<close> from its first statement: no table has been created, no row written, the
  workspace is as it was.
\<close>

theorem unknown_field_index_error:
  assumes "map_of w in_routes = Some d"
    and "\<forall>f \<in> set (dfields d). \<not> sublist (fname f) route_id_field_name"
  shows "create_point_event_table in_routes route_id_field_name measure_interval out_table w
           = Some (Inl IndexError, w)"
proof -
  from assms(2) have "find (\<lambda>f. sublist (fname f) route_id_field_name) (dfields d) = None"
    by (simp add: find_None_iff)
  with get_field_find [OF assms(1), of route_id_field_name]
  have "get_field in_routes route_id_field_name w = (Inl IndexError, w)" by simp
  then show ?thesis
    by (simp add: create_point_event_table_def and_then_d_def lift_def)
qed

theorem unknown_field_index_error_witness:
  "map_of [(''routes'', sample_routes)] ''routes'' = Some sample_routes
   \<and> \<not> sublist ''OBJECTID'' ''NAME'' \<and> \<not> sublist ''Shape'' ''NAME''
   \<and> \<not> sublist ''ROUTE_ID'' ''NAME''
   \<and> create_point_event_table ''routes'' ''NAME'' 25 ''events'' [(''routes'', sample_routes)]
       = Some (Inl IndexError, [(''routes'', sample_routes)])"
proof -
  have h1: "map_of [(''routes'', sample_routes)] ''routes'' = Some sample_routes" by simp
  have h2: "\<forall>f \<in> set (dfields sample_routes). \<not> sublist (fname f) ''NAME''"
    by (simp add: sample_routes_def oid_field_def shape_field_def ROUTE_ID_field_def
        sublist_Cons_right)
  have h3: "\<not> sublist ''OBJECTID'' ''NAME'' \<and> \<not> sublist ''Shape'' ''NAME''
      \<and> \<not> sublist ''ROUTE_ID'' ''NAME''"
    by (simp add: sublist_Cons_right)
  from unknown_field_index_error [OF h1 h2, of 25 "''events''"] h1 h3
  show ?thesis by blast
qed

text \<open>
  C8, as the spec states it, fails: no \<^verbatim>\<open>ConfigurationError\<close> is raised, and the scripts
  define no error class of their own. Asking for the field \<open>NAME\<close> on a dataset whose
  fields are \<open>OBJECTID\<close>, \<open>Shape\<close> and \<open>ID\<close> ends in the \<open>IndexError\<close> that indexing the
  empty list of matching fields raises.
\<close>

theorem unknown_field_counterexample:
  "create_point_event_table ''routes'' ''NAME'' 25 ''events'' [(''routes'', id_routes)]
     = Some (Inl IndexError, [(''routes'', id_routes)])"
  by (simp add: create_point_event_table_def and_then_d_def lift_def get_field_def and_then_def
      Describe_def raise_def id_routes_def oid_field_def shape_field_def ID_field_def)

text \<open>
  Apart from that, \<open>get_field\<close> tests whether a field's name is contained in the requested
  name, not whether it is that name. The dataset below has no field \<open>ROUTE_ID\<close>, but its
  field \<open>ID\<close> is contained in that name, so \<open>get_field\<close> returns it; the event table is
  created with its fields, and only then does opening the search cursor raise.
\<close>

lemma unknown_field_substring_match:
  "''ROUTE_ID'' \<notin> set (field_names id_routes)
   \<and> \<not> Exists [(''routes'', id_routes)] ''events''
   \<and> create_point_event_table ''routes'' ''ROUTE_ID'' 25 ''events'' [(''routes'', id_routes)]
       = Some (Inl RuntimeError,
           [(''routes'', id_routes),
            (''events'', \<lparr>dfields = [oid_field,
                                      \<lparr>fname = ''ROUTE_ID'', ftype = ''Long'', flength = 4\<rparr>,
                                      \<lparr>fname = ''Measure'', ftype = ''DOUBLE'', flength = 0\<rparr>],
                          rows = []\<rparr>)])"
  by (simp add: create_point_event_table_def and_then_d_def lift_def get_field_def and_then_def
      Describe_def ret_def raise_def CreateTable_def AddField_def Cursor_def field_names_def
      id_routes_def oid_field_def shape_field_def ID_field_def Exists_def)

section \<open>The pipeline\<close>


lemma Exists_update: "Exists (AList.update k v w) k' = (k' = k \<or> Exists w k')"
  by (simp add: Exists_def update_conv')

lemma Exists_insertRow: "Exists (insertRow ds row w) k = Exists w k"
  by (cases "map_of w ds") (auto simp: insertRow_def Exists_def update_conv')

lemma and_then_d_Inr:
  assumes "and_then_d m f w = Some (Inr y, w')"
  obtains x w1 where "m w = Some (Inr x, w1)" and "f x w1 = Some (Inr y, w')"
  using assms by (auto simp: and_then_d_def split: option.splits prod.splits sum.splits)

lemma lift_and_then: "lift (and_then m f) = and_then_d (lift m) (\<lambda>x. lift (f x))"
  by (auto simp: lift_def and_then_def and_then_d_def fun_eq_iff split: prod.split sum.split)

lemma keeps_and_then_d:
  assumes "keeps m" and "\<And>x. keeps (f x)"
  shows "keeps (and_then_d m f)"
  unfolding keeps_def
proof (intro allI impI)
  fix w r w' k
  assume run: "and_then_d m f w = Some (r, w')" and k: "Exists w k"
  then obtain r1 w1 where m: "m w = Some (r1, w1)"
    by (auto simp: and_then_d_def split: option.splits)
  with assms(1) k have k1: "Exists w1 k" unfolding keeps_def by blast
  show "Exists w' k"
  proof (cases r1)
    case (Inl e)
    with run m have "w' = w1" by (simp add: and_then_d_def)
    with k1 show ?thesis by simp
  next
    case (Inr x)
    with run m have "f x w1 = Some (r, w')" by (simp add: and_then_d_def)
    with assms(2) [of x] k1 show ?thesis unfolding keeps_def by blast
  qed
qed

lemma keeps_ret: "keeps (lift (ret x))"
  by (simp add: keeps_def lift_def ret_def)

lemma keeps_raise: "keeps (lift (raise e))"
  by (simp add: keeps_def lift_def raise_def)

lemma keeps_Describe: "keeps (lift (Describe ds))"
  by (auto simp: keeps_def lift_def Describe_def split: option.splits)

lemma keeps_get_field: "keeps (lift (get_field ds nm))"
  unfolding get_field_def lift_and_then
  by (intro keeps_and_then_d keeps_Describe) (simp add: keeps_ret keeps_raise split: list.split)

lemma keeps_CreateTable: "keeps (lift (CreateTable ds))"
  by (auto simp: keeps_def lift_def CreateTable_def Exists_update)

lemma keeps_CreateFeatureclass: "keeps (lift (CreateFeatureclass ds sr))"
  by (auto simp: keeps_def lift_def CreateFeatureclass_def Exists_update split: if_splits)

lemma keeps_AddField: "keeps (lift (AddField ds nm ty len))"
  by (auto simp: keeps_def lift_def AddField_def Exists_update split: option.splits if_splits)

lemma keeps_CopyFeatures: "keeps (lift (CopyFeatures src dst))"
  by (auto simp: keeps_def lift_def CopyFeatures_def Exists_update split: option.splits)

lemma keeps_Cursor: "keeps (lift (Cursor ds names))"
  by (auto simp: keeps_def lift_def Cursor_def split: option.splits if_splits)

lemma keeps_MakeRouteEventLayer: "keeps (lift (MakeRouteEventLayer eng r nm t out))"
  by (auto simp: keeps_def lift_def MakeRouteEventLayer_def Exists_update
      split: option.splits if_splits)

lemma keeps_sections: "keeps (lift (sections out_fc nm distance cursor))"
  unfolding keeps_def lift_def
proof (induction cursor)
  case Nil
  then show ?case by simp
next
  case (Cons row cursor)
  show ?case
  proof (intro allI impI)
    fix w r w' k
    assume run: "Some (sections out_fc nm distance (row # cursor) w) = Some (r, w')"
      and k: "Exists w k"
    show "Exists w' k"
    proof (cases "SHAPE_XY (shape row)")
      case None
      with run k show ?thesis by simp
    next
      case (Some xy)
      obtain mid_x mid_y where xy: "xy = (mid_x, mid_y)" by (cases xy)
      show ?thesis
      proof (cases "attr row ''LOC_ANGLE''")
        case (Num a)
        let ?w1 = "insertRow out_fc
               \<lparr>attrs = [(nm, attr row nm), (''Measure'', attr row ''Measure'')],
                shape = Polyline [cross_section_points mid_x mid_y (radians a) distance]\<rparr> w"
        from run Some xy Num have "Some (sections out_fc nm distance cursor ?w1) = Some (r, w')"
          by simp
        moreover have "Exists ?w1 k" using k by (simp add: Exists_insertRow)
        ultimately show ?thesis using Cons.IH by blast
      qed (use run k Some xy in simp_all)
    qed
  qed
qed

lemma keeps_create_cross_section: "keeps (lift (create_cross_section st nm width out_fc))"
  unfolding create_cross_section_def lift_and_then Let_def
  by (intro keeps_and_then_d keeps_CreateFeatureclass keeps_get_field keeps_AddField
      keeps_Cursor keeps_sections)

lemma Exists_foldl_insertRow:
  "Exists (foldl (\<lambda>w' m. insertRow out (f m) w') w ms) k = Exists w k"
  by (induction ms arbitrary: w) (simp_all add: Exists_insertRow)

lemma keeps_populate: "keeps (populate out_table nm measure_interval cursor)"
  unfolding keeps_def
proof (induction cursor)
  case Nil
  then show ?case by simp
next
  case (Cons row cursor)
  show ?case
  proof (intro allI impI)
    fix w r w' k
    assume run: "populate out_table nm measure_interval (row # cursor) w = Some (r, w')"
      and k: "Exists w k"
    show "Exists w' k"
    proof (cases "float_M (firstPoint (shape row))")
      case (Inl e)
      with run k show ?thesis by simp
    next
      case first: (Inr first_measure)
      show ?thesis
      proof (cases "float_M (lastPoint (shape row))")
        case (Inl e)
        with run k first show ?thesis by simp
      next
        case last: (Inr last_measure)
        show ?thesis
        proof (cases "frange first_measure last_measure measure_interval")
          case None
          with run first last show ?thesis by simp
        next
          case (Some ys)
          let ?w1 = "foldl (\<lambda>w' m. insertRow out_table (event_row nm (attr row nm) m) w') w ys"
          from run first last Some
          have "populate out_table nm measure_interval cursor ?w1 = Some (r, w')" by simp
          moreover have "Exists ?w1 k" using k by (simp add: Exists_foldl_insertRow)
          ultimately show ?thesis using Cons.IH by blast
        qed
      qed
    qed
  qed
qed

lemma create_point_event_table_creates:
  assumes "create_point_event_table in_routes nm measure_interval out_table w = Some (Inr x, w')"
  shows "Exists w' out_table"
proof -
  from assms obtain route_id_field w1 where
    "lift (get_field in_routes nm) w = Some (Inr route_id_field, w1)"
    and "and_then_d (lift (CreateTable out_table)) (\<lambda>_.
     and_then_d (lift (AddField out_table nm (ftype route_id_field) (flength route_id_field))) (\<lambda>_.
     and_then_d (lift (AddField out_table ''Measure'' ''DOUBLE'' 0)) (\<lambda>_.
     and_then_d (lift (Cursor out_table [nm, ''Measure''])) (\<lambda>_.
     and_then_d (lift (Cursor in_routes [nm])) (\<lambda>cursor.
     and_then_d (populate out_table nm measure_interval cursor) (\<lambda>_.
     lift (ret out_table))))))) w1 = Some (Inr x, w')"
    unfolding create_point_event_table_def by (rule and_then_d_Inr)
  from this(2) obtain u w2 where ct: "lift (CreateTable out_table) w1 = Some (Inr u, w2)"
    and rest: "and_then_d (lift (AddField out_table nm (ftype route_id_field)
                                   (flength route_id_field))) (\<lambda>_.
     and_then_d (lift (AddField out_table ''Measure'' ''DOUBLE'' 0)) (\<lambda>_.
     and_then_d (lift (Cursor out_table [nm, ''Measure''])) (\<lambda>_.
     and_then_d (lift (Cursor in_routes [nm])) (\<lambda>cursor.
     and_then_d (populate out_table nm measure_interval cursor) (\<lambda>_.
     lift (ret out_table)))))) w2 = Some (Inr x, w')"
    by (rule and_then_d_Inr)
  from ct have "Exists w2 out_table"
    by (auto simp: lift_def CreateTable_def Exists_update)
  moreover have "keeps (and_then_d (lift (AddField out_table nm (ftype route_id_field)
                                   (flength route_id_field))) (\<lambda>_.
     and_then_d (lift (AddField out_table ''Measure'' ''DOUBLE'' 0)) (\<lambda>_.
     and_then_d (lift (Cursor out_table [nm, ''Measure''])) (\<lambda>_.
     and_then_d (lift (Cursor in_routes [nm])) (\<lambda>cursor.
     and_then_d (populate out_table nm measure_interval cursor) (\<lambda>_.
     lift (ret out_table)))))))"
    by (intro keeps_and_then_d keeps_AddField keeps_Cursor keeps_populate keeps_ret)
  ultimately show ?thesis using rest unfolding keeps_def by blast
qed

text \<open>
  \<open>execute\<close> never deletes the in-memory event table it creates: after every normal
  return the table is still in the workspace. (The sibling tool in
  \<^verbatim>\<open>createPointsAlongLine.py\<close> deletes its event table at the end.)
\<close>

lemma execute_keeps_event_table:
  assumes "execute eng in_line_features route_id_field station_interval cross_section_width
             out_route_feature_class out_station_feature_class
             out_cross_section_feature_class w = Some (Inr u, w')"
  shows "Exists w' (CreateUniqueName ''event_table'' ''in_memory''
           (snd (create_route_by_length eng in_line_features route_id_field
                   out_route_feature_class w)))"
proof -
  let ?event_tbl = "\<lambda>w1. CreateUniqueName ''event_table'' ''in_memory'' w1"
  from assms obtain x w1 where
    r: "lift (create_route_by_length eng in_line_features route_id_field
                out_route_feature_class) w = Some (Inr x, w1)"
    and rest: "and_then_d (create_point_event_table out_route_feature_class route_id_field
                      station_interval (?event_tbl w1)) (\<lambda>_.
        and_then_d (lift (MakeRouteEventLayer eng out_route_feature_class route_id_field
                            (?event_tbl w1) ''Point Events'')) (\<lambda>_.
        and_then_d (lift (CopyFeatures ''Point Events'' out_station_feature_class)) (\<lambda>_.
        lift (create_cross_section out_station_feature_class route_id_field
                cross_section_width out_cross_section_feature_class)))) w1 = Some (Inr u, w')"
    unfolding execute_def Let_def by (rule and_then_d_Inr)
  from r have w1: "snd (create_route_by_length eng in_line_features route_id_field
                   out_route_feature_class w) = w1"
    by (auto simp: lift_def)
  from rest obtain y w2 where
    t: "create_point_event_table out_route_feature_class route_id_field
          station_interval (?event_tbl w1) w1 = Some (Inr y, w2)"
    and rest2: "and_then_d (lift (MakeRouteEventLayer eng out_route_feature_class route_id_field
                            (?event_tbl w1) ''Point Events'')) (\<lambda>_.
        and_then_d (lift (CopyFeatures ''Point Events'' out_station_feature_class)) (\<lambda>_.
        lift (create_cross_section out_station_feature_class route_id_field
                cross_section_width out_cross_section_feature_class))) w2 = Some (Inr u, w')"
    by (rule and_then_d_Inr)
  from create_point_event_table_creates [OF t] have "Exists w2 (?event_tbl w1)" .
  moreover have "keeps (and_then_d (lift (MakeRouteEventLayer eng out_route_feature_class
                            route_id_field (?event_tbl w1) ''Point Events'')) (\<lambda>_.
        and_then_d (lift (CopyFeatures ''Point Events'' out_station_feature_class)) (\<lambda>_.
        lift (create_cross_section out_station_feature_class route_id_field
                cross_section_width out_cross_section_feature_class))))"
    by (intro keeps_and_then_d keeps_MakeRouteEventLayer keeps_CopyFeatures
        keeps_create_cross_section)
  ultimately show ?thesis using rest2 unfolding keeps_def w1 by blast
qed


lemma sqrt_10000: "sqrt 10000 = (100::real)"
proof -
  have "sqrt ((100::real)\<^sup>2) = 100" by (simp only: real_sqrt_abs)
  then show ?thesis by simp
qed

lemma straight_the_line:
  "CreateUniqueName ''theLine'' ''in_memory'' [(''lines'', straight_lines)] = ''in_memory/theLine''"
  by (simp add: CreateUniqueName_def Exists_def)

lemma straight_routes:
  "create_route_by_length sample_engine ''lines'' ''ROUTE_ID'' ''routes''
     [(''lines'', straight_lines)]
   = (Inr ''routes'',
      [(''lines'', straight_lines),
       (''routes'', \<lparr>dfields = [oid_field, shape_field, ROUTE_ID_field],
                     rows = [\<lparr>attrs = [(''ROUTE_ID'', Str ''A'')],
                              shape = Polyline [[(0, 0, Some 0), (100, 0, Some 100)]]\<rparr>]\<rparr>)])"
  unfolding create_route_by_length_def Let_def straight_the_line
  by (simp add: and_then_def CopyFeatures_def
      AddField_def Cursor_def updateRows_def CreateRoutes_def Delete_def Exists_def ret_def
      field_names_def straight_lines_def oid_field_def shape_field_def ROUTE_ID_field_def
      update_measures_def set_attr_def length_token_def dist2d_def sqrt_10000
      sample_engine_def set_measures_def attr_def num_of_def AList.delete_eq)

lemma straight_event_table:
  "CreateUniqueName ''event_table'' ''in_memory''
     [(''lines'', straight_lines),
      (''routes'', \<lparr>dfields = [oid_field, shape_field, ROUTE_ID_field],
                    rows = [\<lparr>attrs = [(''ROUTE_ID'', Str ''A'')],
                             shape = Polyline [[(0, 0, Some 0), (100, 0, Some 100)]]\<rparr>]\<rparr>)]
   = ''in_memory/event_table''"
  by (simp add: CreateUniqueName_def Exists_def)

text \<open>
  A whole run on the straight line from \<open>(0, 0)\<close> to \<open>(100, 0)\<close> with identifier
  \<open>A\<close>, station interval 25 and width 10: stations at the measures 0, 25, 50 and 75, the
  cross-section at measure 50 through \<open>(50, 5)\<close>, \<open>(50, 0)\<close>, \<open>(50, - 5)\<close>; the
  in-memory event table is still there at the end.
\<close>

lemma straight_run:
  "\<exists>w'. execute sample_engine ''lines'' ''ROUTE_ID'' 25 10 ''routes'' ''stations'' ''sections''
          [(''lines'', straight_lines)] = Some (Inr (), w')
      \<and> map (\<lambda>r. (attr r ''Measure'', shape r)) (rows (the (map_of w' ''sections'')))
          = [(Num 0, Polyline [[(0, 5, None), (0, 0, None), (0, - 5, None)]]),
             (Num 25, Polyline [[(25, 5, None), (25, 0, None), (25, - 5, None)]]),
             (Num 50, Polyline [[(50, 5, None), (50, 0, None), (50, - 5, None)]]),
             (Num 75, Polyline [[(75, 5, None), (75, 0, None), (75, - 5, None)]])]
      \<and> Exists w' ''in_memory/event_table''"
  unfolding execute_def and_then_d_def lift_def straight_routes Let_def
  apply (simp only: sum.case prod.case option.case straight_event_table)
  apply (simp add: create_point_event_table_def and_then_d_def lift_def get_field_def and_then_def
      Describe_def ret_def raise_def CreateTable_def AddField_def Cursor_def field_names_def
      oid_field_def shape_field_def ROUTE_ID_field_def
      float_M_def M_def attr_def insertRow_def frange.simps advance_def event_row_def
      MakeRouteEventLayer_def CopyFeatures_def sample_engine_def locate_def num_of_def
      create_cross_section_def CreateFeatureclass_def Exists_def order_by_def row_le_def
      cross_section_points_def radians_def Let_def)
  done

end
